theory Spec2Isabelle
  imports Main
begin

section \<open>Python text\<close>

text \<open>
  A Python \<open>str\<close> is modelled as a \<open>string\<close> whose characters are code points
  U+0000 to U+00FF (one \<open>char\<close> per code point); the texts the program itself
  writes all lie in this range.
\<close>

definition lower_char :: "char \<Rightarrow> char" where
  \<comment> \<open>\<open>str.lower\<close> on one code point up to U+00FF: A-Z, and the Latin-1 capitals
      U+00C0 to U+00DE without the multiplication sign U+00D7, move up by 32.\<close>
  "lower_char c =
     (let n = (of_char c :: nat)
      in if (65 \<le> n \<and> n \<le> 90) \<or> (192 \<le> n \<and> n \<le> 214) \<or> (216 \<le> n \<and> n \<le> 222)
         then char_of (n + 32) else c)"

definition str_lower :: "string \<Rightarrow> string" where
  "str_lower s = map lower_char s"

fun startswith :: "'a list \<Rightarrow> 'a list \<Rightarrow> bool" where
  \<comment> \<open>\<open>startswith p s\<close>: the text \<open>s\<close> begins with \<open>p\<close>.\<close>
  "startswith [] s = True"
| "startswith (p # ps) [] = False"
| "startswith (p # ps) (c # cs) = (if p = c then startswith ps cs else False)"

fun contains :: "'a list \<Rightarrow> 'a list \<Rightarrow> bool" where
  \<comment> \<open>Python's \<open>p in s\<close> on texts: \<open>p\<close> occurs in \<open>s\<close> as a contiguous substring.\<close>
  "contains p [] = startswith p []"
| "contains p (c # cs) = (if startswith p (c # cs) then True else contains p cs)"

function split_from :: "'a list \<Rightarrow> 'a list \<Rightarrow> 'a list \<Rightarrow> 'a list list" where
  \<comment> \<open>The scan of \<open>str.split(sep)\<close> for a non-empty separator: \<open>seg\<close> is the segment
      read so far; occurrences are taken left to right and do not overlap.\<close>
  "split_from sep seg [] = [seg]"
| "split_from sep seg (c # cs) =
     (if sep \<noteq> [] \<and> startswith sep (c # cs)
      then seg # split_from sep [] (drop (length sep) (c # cs))
      else split_from sep (seg @ [c]) cs)"
  by pat_completeness auto
termination
  by (relation "measure (\<lambda>(sep, seg, s). length s)") auto

definition str_split :: "'a list \<Rightarrow> 'a list \<Rightarrow> 'a list list" where
  \<comment> \<open>\<open>s.split(sep)\<close>; Python raises ValueError on an empty separator, the program
      only passes a literal.\<close>
  "str_split s sep = split_from sep [] s"

function replace :: "'a list \<Rightarrow> 'a list \<Rightarrow> 'a list \<Rightarrow> 'a list" where
  \<comment> \<open>\<open>s.replace(old, new)\<close> without a count, for a non-empty \<open>old\<close>.\<close>
  "replace [] old new = []"
| "replace (c # cs) old new =
     (if old \<noteq> [] \<and> startswith old (c # cs)
      then new @ replace (drop (length old) (c # cs)) old new
      else c # replace cs old new)"
  by pat_completeness auto
termination
  by (relation "measure (\<lambda>(s, old, new). length s)") auto

definition encode_utf8 :: "string \<Rightarrow> string" where
  \<comment> \<open>\<open>s.encode('utf8')\<close> on code points up to U+00FF; the result is a byte string,
      one \<open>char\<close> per byte.\<close>
  "encode_utf8 s =
     concat (map (\<lambda>c. let n = (of_char c :: nat)
                        in if n < 128 then [c]
                           else [char_of (192 + n div 64), char_of (128 + n mod 64)]) s)"

section \<open>Exceptions\<close>

text \<open>
  The classes of exception the program meets. Every value of \<open>exn\<close> is an instance
  of Python's \<open>Exception\<close>, so \<open>except Exception\<close> catches each of them.
\<close>

datatype exn_kind =
    ValueError | UnicodeDecodeError
  | SMTPException | SMTPAuthenticationError | SMTPServerDisconnected
  | IMAP4Error | OSError | ConnectionError | AttributeError | IndexError | OtherException

datatype exn = Exn (kind: exn_kind) (msg: string) (cause: "exn option")

fun smtp_or_value_error :: "exn_kind \<Rightarrow> bool" where
  \<comment> \<open>\<open>isinstance(e, (smtplib.SMTPException, ValueError))\<close>, subclasses included.\<close>
  "smtp_or_value_error ValueError = True"
| "smtp_or_value_error UnicodeDecodeError = True"
| "smtp_or_value_error SMTPException = True"
| "smtp_or_value_error SMTPAuthenticationError = True"
| "smtp_or_value_error SMTPServerDisconnected = True"
| "smtp_or_value_error k = False"

definition none_has_no_attribute :: "string \<Rightarrow> exn" where
  \<comment> \<open>What a method call on \<open>None\<close> raises.\<close>
  "none_has_no_attribute name =
     Exn AttributeError
       ([CHR 0x27] @ ''NoneType'' @ [CHR 0x27] @ '' object has no attribute ''
          @ [CHR 0x27] @ name @ [CHR 0x27]) None"

section \<open>The sender, its collaborators and the outside world\<close>

datatype smtp_handle = SMTP | SMTP_SSL
datatype imap_handle = IMAP4_SSL

record email_sender =
  url :: string
  port :: int
  login :: string
  password :: string
  signature_path :: "string option"
  server :: "smtp_handle option"
  imap :: "imap_handle option"

text \<open>
  Modelled from the spec: the \<open>Email\<close> builder of \<open>dmt_smtp/email.py\<close> is not
  part of the sources; its product is a record of the attributes \<open>send\<close> reads.
\<close>

record email =
  email_from_email :: string
  email_subject :: string
  email_body :: string
  email_html_body :: "string option"
  email_to_email :: string
  email_cc_emails :: "string option"
  email_signature_path :: "string option"
  email_file_path :: "string option"
  email_recipients :: "string list"
  email_msg :: string

text \<open>
  Modelled from the spec: \<open>SMTPResponse\<close> of \<open>dmt_smtp/models.py\<close> is not part of
  the sources; it is the plain result record of the specification, its fields in the
  order of the positional arguments \<open>send\<close> passes.
\<close>

record smtp_response =
  success :: bool
  res_sender :: string
  res_subject :: string
  res_body :: string
  res_html_body :: "string option"
  res_recipient :: string
  res_cc_list :: "string option"
  res_signature_path :: "string option"
  res_attachment_path :: "string option"
  error_message :: "string option"
  error_code :: "int option"

datatype mailbox =
    Utf8 string           \<comment> \<open>bytes that \<open>decode()\<close> turns into the given text\<close>
  | Undecodable exn       \<comment> \<open>an entry on which \<open>decode()\<close> raises\<close>

fun decode :: "mailbox \<Rightarrow> exn + string" where
  "decode (Utf8 name) = Inr name"
| "decode (Undecodable e) = Inl e"

datatype level = Info | Warning | Error

datatype event =
    SmtpOpen string int                 \<comment> \<open>\<open>smtplib.SMTP(url, port)\<close>\<close>
  | SmtpSslOpen string int              \<comment> \<open>\<open>smtplib.SMTP_SSL(url, port)\<close>\<close>
  | Starttls
  | SmtpLogin string string
  | Sendmail string "string list" string
  | SmtpQuit
  | ImapOpen string int                 \<comment> \<open>\<open>imaplib.IMAP4_SSL(host, port)\<close>\<close>
  | ImapLogin string string
  | ImapList
  | ImapAppend "string option" string string string
  | ImapLogout
  | Log level string

text \<open>
  The servers and the clock are outside the program. A \<open>world\<close> answers each
  library call from the history of events so far, the call itself included:
  \<open>fails\<close> says whether the call raises, \<open>sock\<close> whether the SMTP handle still
  has its socket, \<open>list_reply\<close> what \<open>imap.list()\<close> returns,
  \<open>internaldate\<close> the value of \<open>imaplib.Time2Internaldate(time.time())\<close>, and
  \<open>build_email\<close> is the \<open>Email\<close> constructor.
\<close>

record world =
  fails :: "event list \<Rightarrow> exn option"
  sock :: "event list \<Rightarrow> bool"
  list_reply :: "event list \<Rightarrow> string \<times> mailbox list"
  internaldate :: "event list \<Rightarrow> string"
  build_email :: "string \<Rightarrow> string \<Rightarrow> string \<Rightarrow> string \<Rightarrow> string option
                    \<Rightarrow> string option \<Rightarrow> string option \<Rightarrow> exn + email"

record state =
  self :: email_sender
  trace :: "event list"

type_synonym 'a prog = "state \<Rightarrow> (exn + 'a) \<times> state"

definition preturn :: "'a \<Rightarrow> 'a prog" where
  "preturn x s = (Inr x, s)"

definition praise :: "exn \<Rightarrow> 'a prog" where
  "praise e s = (Inl e, s)"

definition pbind :: "'a prog \<Rightarrow> ('a \<Rightarrow> 'b prog) \<Rightarrow> 'b prog" where
  "pbind m f s = (case m s of (Inl e, s') \<Rightarrow> (Inl e, s') | (Inr x, s') \<Rightarrow> f x s')"

definition ptry :: "'a prog \<Rightarrow> (exn \<Rightarrow> 'a prog) \<Rightarrow> 'a prog" where
  \<comment> \<open>\<open>try: m except Exception as e: h e\<close>\<close>
  "ptry m h s = (case m s of (Inl e, s') \<Rightarrow> h e s' | (Inr x, s') \<Rightarrow> (Inr x, s'))"

definition pfinally :: "'a prog \<Rightarrow> unit prog \<Rightarrow> 'a prog" where
  \<comment> \<open>\<open>try: m finally: f\<close>\<close>
  "pfinally m f s =
     (case m s of (r, s') \<Rightarrow>
        (case f s' of (Inl e, s'') \<Rightarrow> (Inl e, s'') | (Inr u, s'') \<Rightarrow> (r, s'')))"

definition get_self :: "email_sender prog" where
  "get_self s = (Inr (self s), s)"

definition set_self :: "(email_sender \<Rightarrow> email_sender) \<Rightarrow> unit prog" where
  "set_self f s = (Inr (), s\<lparr>self := f (self s)\<rparr>)"

definition log :: "level \<Rightarrow> string \<Rightarrow> unit prog" where
  "log lvl m s = (Inr (), s\<lparr>trace := trace s @ [Log lvl m]\<rparr>)"

definition call :: "world \<Rightarrow> event \<Rightarrow> unit prog" where
  "call w ev s =
     (let t = trace s @ [ev]
      in (case fails w t of Some e \<Rightarrow> Inl e | None \<Rightarrow> Inr (), s\<lparr>trace := t\<rparr>))"

section \<open>Connecting\<close>

definition invalid_port :: string where
  "invalid_port = ''Porta SMTP inv'' @ [CHR 0xE1] @ ''lida. Use 587 ou 465.''"

definition smtp_connected :: string where
  "smtp_connected = ''Conectado ao servidor SMTP com sucesso.''"

definition imap_connected :: string where
  "imap_connected = ''Conectado ao servidor IMAP com sucesso.''"

definition smtp_connection_error :: "exn \<Rightarrow> exn" where
  \<comment> \<open>The two \<open>except\<close> clauses of \<open>_connect_smtp\<close>; both raise ConnectionError
      \<open>from e\<close>.\<close>
  "smtp_connection_error e =
     (if smtp_or_value_error (kind e)
      then Exn ConnectionError (''Falha ao conectar ao servidor SMTP: '' @ msg e) (Some e)
      else Exn ConnectionError (''Erro inesperado ao conectar ao servidor SMTP: '' @ msg e)
             (Some e))"

definition imap_connection_error :: "exn \<Rightarrow> exn" where
  \<comment> \<open>The \<open>except\<close> clause of \<open>_connect_imap\<close>.\<close>
  "imap_connection_error e =
     Exn ConnectionError (''Falha ao conectar ao servidor IMAP: '' @ msg e) (Some e)"

definition connect_smtp :: "world \<Rightarrow> smtp_handle prog" where
  "connect_smtp w =
     ptry
       (pbind get_self (\<lambda>self.
        pbind
          (if port self = 587 then
             pbind (call w (SmtpOpen (url self) (port self))) (\<lambda>_.
             pbind (call w Starttls) (\<lambda>_.
             preturn SMTP))
           else if port self = 465 then
             pbind (call w (SmtpSslOpen (url self) (port self))) (\<lambda>_.
             preturn SMTP_SSL)
           else praise (Exn ValueError invalid_port None))
          (\<lambda>server.
        pbind (call w (SmtpLogin (login self) (password self))) (\<lambda>_.
        pbind (log Info smtp_connected) (\<lambda>_.
        preturn server)))))
       (\<lambda>e. praise (smtp_connection_error e))"

definition connect_imap :: "world \<Rightarrow> imap_handle prog" where
  "connect_imap w =
     ptry
       (pbind get_self (\<lambda>self.
        let imap_url = replace (url self) ''smtp'' ''imap'' in
        pbind (call w (ImapOpen imap_url 993)) (\<lambda>_.
        pbind (call w (ImapLogin (login self) (password self))) (\<lambda>_.
        pbind (log Info imap_connected) (\<lambda>_.
        preturn IMAP4_SSL)))))
       (\<lambda>e. praise (imap_connection_error e))"

definition fields :: "string \<Rightarrow> int \<Rightarrow> string \<Rightarrow> string \<Rightarrow> string option \<Rightarrow> email_sender" where
  \<comment> \<open>The object once \<open>__init__\<close> has stored its arguments, before any handle exists.\<close>
  "fields url' port' login' password' signature_path' =
     \<lparr>url = url', port = port', login = login', password = password',
      signature_path = signature_path', server = None, imap = None\<rparr>"

definition init :: "world \<Rightarrow> string \<Rightarrow> int \<Rightarrow> string \<Rightarrow> string \<Rightarrow> string option \<Rightarrow> unit prog" where
  \<comment> \<open>The body of \<open>__init__\<close>, on the object under construction. The port is an
      \<open>int\<close> already, so \<open>int(port)\<close> is the port; \<open>setup_logger\<close> belongs to the
      logging collaborator and adds no event.\<close>
  "init w url' port' login' password' signature_path' =
     pbind (set_self (\<lambda>_. fields url' port' login' password' signature_path')) (\<lambda>_.
     pbind (connect_smtp w) (\<lambda>server'.
     pbind (set_self (\<lambda>self. self\<lparr>server := Some server'\<rparr>)) (\<lambda>_.
     pbind (connect_imap w) (\<lambda>imap'.
     pbind (set_self (\<lambda>self. self\<lparr>imap := Some imap'\<rparr>)) (\<lambda>_.
     pbind get_self (\<lambda>self.
     log Info (''Usando o email: '' @ login self)))))))"

definition EmailSender ::
  "world \<Rightarrow> string \<Rightarrow> int \<Rightarrow> string \<Rightarrow> string \<Rightarrow> string option \<Rightarrow> event list
     \<Rightarrow> (exn + email_sender) \<times> event list" where
  \<comment> \<open>\<open>EmailSender(url, port, login, password, signature_path=...)\<close>: the caller gets
      the object only when \<open>__init__\<close> returns; otherwise it gets the exception.\<close>
  "EmailSender w url' port' login' password' signature_path' t =
     (case init w url' port' login' password' signature_path'
             \<lparr>self = fields [] 0 [] [] None, trace = t\<rparr> of
        (Inl e, s) \<Rightarrow> (Inl e, trace s)
      | (Inr u, s) \<Rightarrow> (Inr (self s), trace s))"

section \<open>Closing\<close>

definition already_closed :: string where
  "already_closed =
     ''Tentativa de fechar conex'' @ [CHR 0xE3] @ ''o SMTP j'' @ [CHR 0xE1] @ '' desconectada.''"

definition close_smtp :: "world \<Rightarrow> unit prog" where
  \<comment> \<open>The first block of \<open>close_connection\<close>: \<open>if self.server is not None: ...\<close>\<close>
  "close_smtp w =
     pbind get_self (\<lambda>self.
       if server self \<noteq> None then
         pfinally
           (ptry
              (\<lambda>s. if sock w (trace s)
                   then pbind (call w SmtpQuit) (\<lambda>_.
                        log Info (''Conex'' @ [CHR 0xE3] @ ''o SMTP encerrada.'')) s
                   else log Warning already_closed s)
              (\<lambda>e. log Error (''Erro ao encerrar conex'' @ [CHR 0xE3] @ ''o SMTP: '' @ msg e)))
           (set_self (\<lambda>self. self\<lparr>server := None\<rparr>))
       else preturn ())"

definition close_imap :: "world \<Rightarrow> unit prog" where
  \<comment> \<open>The second block of \<open>close_connection\<close>: \<open>if self.imap is not None: ...\<close>\<close>
  "close_imap w =
     pbind get_self (\<lambda>self.
       if imap self \<noteq> None then
         pfinally
           (ptry
              (pbind (call w ImapLogout) (\<lambda>_.
               log Info (''Conex'' @ [CHR 0xE3] @ ''o IMAP encerrada.'')))
              (\<lambda>e. log Error (''Erro ao encerrar conex'' @ [CHR 0xE3] @ ''o IMAP: '' @ msg e)))
           (set_self (\<lambda>self. self\<lparr>imap := None\<rparr>))
       else preturn ())"

definition close_connection :: "world \<Rightarrow> unit prog" where
  "close_connection w = pbind (close_smtp w) (\<lambda>_. close_imap w)"

section \<open>Finding the sent folder\<close>

definition email_folders :: "(string \<times> string) list" where
  \<comment> \<open>The dict literal, in its insertion order.\<close>
  "email_folders =
     [(''gmail'', [CHR 0x22] @ ''[Gmail]/Sent Mail'' @ [CHR 0x22]),
      (''yahoo'', ''Sent''),
      (''outlook'', [CHR 0x22] @ ''[Outlook]/Sent'' @ [CHR 0x22]),
      (''hotmail'', [CHR 0x22] @ ''[Hotmail]/Sent'' @ [CHR 0x22]),
      (''aol'', ''Sent''),
      (''icloud'', ''Sent Messages'')]"

definition delimiter :: string where
  \<comment> \<open>The literal \<^verbatim>\<open>' "." '\<close>.\<close>
  "delimiter = '' '' @ [CHR 0x22] @ ''.'' @ [CHR 0x22] @ '' ''"

definition falsy :: "string option \<Rightarrow> bool" where
  \<comment> \<open>\<open>not sent_folder\<close>: \<open>None\<close> and the empty text are false.\<close>
  "falsy v = (case v of None \<Rightarrow> True | Some x \<Rightarrow> x = [])"

fun scan_providers :: "(string \<times> string) list \<Rightarrow> string \<Rightarrow> string option \<Rightarrow> string option" where
  \<comment> \<open>The inner \<open>for provider, folder in email_folders.items()\<close> with its \<open>break\<close>.\<close>
  "scan_providers [] mailbox_name sent_folder = sent_folder"
| "scan_providers ((provider, folder) # rest) mailbox_name sent_folder =
     (if contains provider (str_lower mailbox_name) then Some folder
      else scan_providers rest mailbox_name sent_folder)"

definition last_item :: "'a list \<Rightarrow> exn + 'a" where
  \<comment> \<open>\<open>xs[-1]\<close>\<close>
  "last_item xs =
     (if xs = [] then Inl (Exn IndexError ''list index out of range'' None)
      else Inr (last xs))"

fun scan_mailboxes :: "mailbox list \<Rightarrow> string option \<Rightarrow> exn + string option" where
  \<comment> \<open>The outer \<open>for mailbox in mailboxes\<close> with its \<open>break\<close>, then the \<open>return\<close>.\<close>
  "scan_mailboxes [] sent_folder = Inr sent_folder"
| "scan_mailboxes (mailbox # rest) sent_folder =
     (case decode mailbox of
        Inl e \<Rightarrow> Inl e
      | Inr mailbox_name \<Rightarrow>
          if contains ''sent'' (str_lower mailbox_name) then
            (let sent_folder' = scan_providers email_folders mailbox_name sent_folder
             in if falsy sent_folder'
                then (case last_item (str_split mailbox_name delimiter) of
                        Inl e \<Rightarrow> Inl e
                      | Inr seg \<Rightarrow> Inr (Some seg))
                else Inr sent_folder')
          else scan_mailboxes rest sent_folder)"

definition imap_list :: "world \<Rightarrow> (string \<times> mailbox list) prog" where
  \<comment> \<open>\<open>self.imap.list()\<close>\<close>
  "imap_list w =
     pbind get_self (\<lambda>self.
       if imap self = None then praise (none_has_no_attribute ''list'')
       else pbind (call w ImapList) (\<lambda>_. (\<lambda>s. (Inr (list_reply w (trace s)), s))))"

definition find_sent_folder :: "world \<Rightarrow> string option prog" where
  "find_sent_folder w =
     pbind (imap_list w) (\<lambda>(status, mailboxes).
     (\<lambda>s. (scan_mailboxes mailboxes None, s)))"

section \<open>Sending\<close>

definition str_of :: "string option \<Rightarrow> string" where
  \<comment> \<open>How an f-string prints the value: \<open>None\<close> as the text \<open>None\<close>.\<close>
  "str_of v = (case v of None \<Rightarrow> ''None'' | Some x \<Rightarrow> x)"

definition SMTPResponse ::
  "bool \<Rightarrow> email \<Rightarrow> string option \<Rightarrow> int option \<Rightarrow> smtp_response" where
  \<comment> \<open>\<open>SMTPResponse(flag, email.from_email, email.subject, email.body, email.html_body,
      email.to_email, email.cc_emails, email.signature_path, email.file_path, ...)\<close>\<close>
  "SMTPResponse flag email err code =
     \<lparr>success = flag,
      res_sender = email_from_email email,
      res_subject = email_subject email,
      res_body = email_body email,
      res_html_body = email_html_body email,
      res_recipient = email_to_email email,
      res_cc_list = email_cc_emails email,
      res_signature_path = email_signature_path email,
      res_attachment_path = email_file_path email,
      error_message = err,
      error_code = code\<rparr>"

definition sendmail :: "world \<Rightarrow> string \<Rightarrow> string list \<Rightarrow> string \<Rightarrow> unit prog" where
  \<comment> \<open>\<open>self.server.sendmail(from_addr, to_addrs, msg)\<close>\<close>
  "sendmail w from_addr to_addrs m =
     pbind get_self (\<lambda>self.
       if server self = None then praise (none_has_no_attribute ''sendmail'')
       else call w (Sendmail from_addr to_addrs m))"

definition imap_append :: "world \<Rightarrow> string option \<Rightarrow> string \<Rightarrow> unit prog" where
  \<comment> \<open>\<open>self.imap.append(mailbox, '', imaplib.Time2Internaldate(time.time()), message)\<close>\<close>
  "imap_append w mailbox message =
     pbind get_self (\<lambda>self.
       if imap self = None then praise (none_has_no_attribute ''append'')
       else (\<lambda>s. call w (ImapAppend mailbox [] (internaldate w (trace s)) message) s))"

definition sending :: "string \<Rightarrow> string" where
  \<comment> \<open>\<^verbatim>\<open>f"Enviando e-mail \"{subject}\""\<close>\<close>
  "sending subject = ''Enviando e-mail '' @ [CHR 0x22] @ subject @ [CHR 0x22]"

definition saving :: "string option \<Rightarrow> string" where
  \<comment> \<open>\<^verbatim>\<open>f"Salvando e-mail em {sent_folder}"\<close>\<close>
  "saving sent_folder = ''Salvando e-mail em '' @ str_of sent_folder"

definition send_body :: "world \<Rightarrow> string \<Rightarrow> email \<Rightarrow> smtp_response prog" where
  \<comment> \<open>The \<open>try\<close> block of \<open>send\<close>.\<close>
  "send_body w subject email =
     pbind get_self (\<lambda>self.
     pbind (log Info (sending subject)) (\<lambda>_.
     pbind (sendmail w (login self) (email_recipients email) (email_msg email)) (\<lambda>_.
     pbind (log Info ''E-mail enviado com sucesso'') (\<lambda>_.
     pbind (find_sent_folder w) (\<lambda>sent_folder.
     pbind (log Info (saving sent_folder)) (\<lambda>_.
     pbind (imap_append w sent_folder (encode_utf8 (email_msg email))) (\<lambda>_.
     pbind (log Info ''E-mail salvo com sucesso'') (\<lambda>_.
     preturn (SMTPResponse True email None None)))))))))"

definition send_error :: "string \<Rightarrow> exn \<Rightarrow> string" where
  \<comment> \<open>\<^verbatim>\<open>f"Erro ao enviar e-mail para {to_email}: {e}"\<close>\<close>
  "send_error to_email e = ''Erro ao enviar e-mail para '' @ to_email @ '': '' @ msg e"

definition send ::
  "world \<Rightarrow> string \<Rightarrow> string \<Rightarrow> string \<Rightarrow> string option \<Rightarrow> string option \<Rightarrow> smtp_response prog" where
  "send w subject body to_email cc_emails file_path =
     pbind get_self (\<lambda>self.
     pbind (\<lambda>s. (build_email w (login self) subject body to_email cc_emails file_path
                    (signature_path self), s)) (\<lambda>email.
     ptry (send_body w subject email)
       (\<lambda>e. let error = send_error to_email e in
            pbind (log Error error) (\<lambda>_.
            preturn (SMTPResponse False email (Some error) (Some 500))))))"

section \<open>The specification's wording\<close>

definition mentions :: "string \<Rightarrow> string \<Rightarrow> bool" where
  \<comment> \<open>The keyword occurs in the entry, whatever the entry's letter case.\<close>
  "mentions keyword entry = contains keyword (str_lower entry)"

definition folder_of :: "string \<Rightarrow> string" where
  \<comment> \<open>The folder an entry that mentions \<open>sent\<close> gives: that of the first provider of
      the table the entry mentions, otherwise the last segment of the entry.\<close>
  "folder_of entry =
     (case List.find (\<lambda>(provider, folder). mentions provider entry) email_folders of
        Some (provider, folder) \<Rightarrow> folder
      | None \<Rightarrow> last (str_split entry delimiter))"

definition resolve :: "string list \<Rightarrow> string option" where
  \<comment> \<open>The resolver as the specification words it, on the decoded listing: the first
      entry that mentions \<open>sent\<close> decides alone, and no such entry gives \<open>None\<close>.\<close>
  "resolve listing =
     (case List.find (mentions ''sent'') listing of
        None \<Rightarrow> None
      | Some entry \<Rightarrow> Some (folder_of entry))"

definition decides :: "mailbox \<Rightarrow> bool" where
  \<comment> \<open>The entry ends the scan: it does not decode, or its text mentions \<open>sent\<close>.\<close>
  "decides m = (case decode m of Inl e \<Rightarrow> True | Inr entry \<Rightarrow> mentions ''sent'' entry)"

definition resolve_listing :: "mailbox list \<Rightarrow> exn + string option" where
  \<comment> \<open>The resolver on the raw listing: the first entry that ends the scan decides
      alone, by its decoding error or by its folder; no such entry gives \<open>None\<close>.\<close>
  "resolve_listing listing =
     (case List.find decides listing of
        None \<Rightarrow> Inr None
      | Some m \<Rightarrow>
          (case decode m of
             Inl e \<Rightarrow> Inl e
           | Inr entry \<Rightarrow> Inr (Some (folder_of entry))))"

fun replace_first :: "'a list \<Rightarrow> 'a list \<Rightarrow> 'a list \<Rightarrow> 'a list" where
  \<comment> \<open>The specification's derivation of the IMAP host: only the first occurrence of
      \<open>old\<close> is replaced.\<close>
  "replace_first [] old new = []"
| "replace_first (c # cs) old new =
     (if old \<noteq> [] \<and> startswith old (c # cs) then new @ drop (length old) (c # cs)
      else c # replace_first cs old new)"

fun join :: "'a list \<Rightarrow> 'a list list \<Rightarrow> 'a list" where
  \<comment> \<open>\<open>sep.join(parts)\<close>\<close>
  "join sep [] = []"
| "join sep [x] = x"
| "join sep (x # y # ys) = x @ sep @ join sep (y # ys)"

definition new_events :: "event list \<Rightarrow> event list \<Rightarrow> event list" where
  \<comment> \<open>What a call added to the history.\<close>
  "new_events before after = drop (length before) after"

fun is_sendmail :: "event \<Rightarrow> bool" where
  "is_sendmail (Sendmail from_addr to_addrs m) = True"
| "is_sendmail ev = False"

fun is_append :: "event \<Rightarrow> bool" where
  "is_append (ImapAppend mailbox flags date_time message) = True"
| "is_append ev = False"

fun is_imap :: "event \<Rightarrow> bool" where
  "is_imap (ImapOpen host p) = True"
| "is_imap (ImapLogin user pw) = True"
| "is_imap ImapList = True"
| "is_imap (ImapAppend mailbox flags date_time message) = True"
| "is_imap ImapLogout = True"
| "is_imap ev = False"

fun is_smtp :: "event \<Rightarrow> bool" where
  "is_smtp (SmtpOpen host p) = True"
| "is_smtp (SmtpSslOpen host p) = True"
| "is_smtp Starttls = True"
| "is_smtp (SmtpLogin user pw) = True"
| "is_smtp (Sendmail from_addr to_addrs m) = True"
| "is_smtp SmtpQuit = True"
| "is_smtp ev = False"

section \<open>Sample worlds\<close>

definition sample_email ::
  "string \<Rightarrow> string \<Rightarrow> string \<Rightarrow> string \<Rightarrow> string option \<Rightarrow> string option \<Rightarrow> string option
     \<Rightarrow> email" where
  "sample_email from_email subject body to_email cc_emails file_path signature_path' =
     \<lparr>email_from_email = from_email, email_subject = subject, email_body = body,
      email_html_body = None, email_to_email = to_email, email_cc_emails = cc_emails,
      email_signature_path = signature_path', email_file_path = file_path,
      email_recipients = [to_email],
      email_msg = ''Subject: '' @ subject @ [CHR 0x0A, CHR 0x0A] @ body\<rparr>"

definition sample_listing :: "string list" where
  "sample_listing =
     [''(HasNoChildren) '' @ [CHR 0x22] @ ''.'' @ [CHR 0x22] @ '' INBOX'',
      ''(HasNoChildren Sent) '' @ [CHR 0x22] @ ''.'' @ [CHR 0x22] @ '' Enviados'',
      ''(HasNoChildren) '' @ [CHR 0x22] @ ''.'' @ [CHR 0x22] @ '' Sent'']"

definition calm_world :: world where
  \<comment> \<open>Every call succeeds.\<close>
  "calm_world =
     \<lparr>fails = (\<lambda>t. None), sock = (\<lambda>t. True),
      list_reply = (\<lambda>t. (''OK'', map Utf8 sample_listing)),
      internaldate = (\<lambda>t. ''03-Nov-2026 12:00:00 +0000''),
      build_email = (\<lambda>from_email subject body to_email cc_emails file_path signature_path'.
        Inr (sample_email from_email subject body to_email cc_emails file_path signature_path'))\<rparr>"

definition refused :: exn where
  "refused = Exn OSError ''[Errno 111] Connection refused'' None"

definition failing_on :: "(event \<Rightarrow> bool) \<Rightarrow> world" where
  \<comment> \<open>The calls picked by \<open>P\<close> raise; every other call succeeds.\<close>
  "failing_on P =
     calm_world\<lparr>fails := (\<lambda>t. case rev t of [] \<Rightarrow> None
                                  | ev # earlier \<Rightarrow> if P ev then Some refused else None)\<rparr>"

definition severed_world :: world where
  \<comment> \<open>The SMTP handle has lost its socket.\<close>
  "severed_world = calm_world\<lparr>sock := (\<lambda>t. False)\<rparr>"

definition no_file :: exn where
  "no_file = Exn OSError ''[Errno 2] No such file or directory'' None"

definition unreadable_world :: world where
  \<comment> \<open>The \<open>Email\<close> builder cannot read the attachment.\<close>
  "unreadable_world =
     calm_world\<lparr>build_email :=
       (\<lambda>from_email subject body to_email cc_emails file_path signature_path'. Inl no_file)\<rparr>"

definition bad_bytes :: exn where
  \<comment> \<open>What \<open>decode()\<close> raises on the bytes \<open>FF FE\<close>.\<close>
  "bad_bytes =
     Exn UnicodeDecodeError
       ([CHR 0x27] @ ''utf-8'' @ [CHR 0x27] @ '' codec can'' @ [CHR 0x27]
          @ ''t decode byte 0xff in position 0: invalid start byte'') None"

definition none_listing :: "mailbox list" where
  \<comment> \<open>The listing \<open>[None]\<close> that \<open>imaplib\<close> returns when the server lists no mailbox.\<close>
  "none_listing = [Undecodable (none_has_no_attribute ''decode'')]"

definition bad_bytes_listing :: "mailbox list" where
  \<comment> \<open>An entry that is not UTF-8, before the entry of the sent folder.\<close>
  "bad_bytes_listing = [Undecodable bad_bytes, Utf8 ''Sent'']"

definition listing_world :: "mailbox list \<Rightarrow> world" where
  \<comment> \<open>Every call succeeds and \<open>list()\<close> returns the given listing.\<close>
  "listing_world listing = calm_world\<lparr>list_reply := (\<lambda>t. (''OK'', listing))\<rparr>"

definition sample_sender :: email_sender where
  "sample_sender =
     (fields ''smtp.example.com'' 587 ''me@example.com'' ''secret'' None)
       \<lparr>server := Some SMTP, imap := Some IMAP4_SSL\<rparr>"

definition sample_state :: state where
  "sample_state = \<lparr>self = sample_sender, trace = []\<rparr>"

section \<open>Running programs\<close>

lemma call_cases:
  "call w ev s =
     (case fails w (trace s @ [ev]) of
        None \<Rightarrow> (Inr (), s\<lparr>trace := trace s @ [ev]\<rparr>)
      | Some e \<Rightarrow> (Inl e, s\<lparr>trace := trace s @ [ev]\<rparr>))"
  by (simp add: call_def Let_def split: option.splits)

lemmas prog_simps = preturn_def praise_def pbind_def ptry_def pfinally_def get_self_def
  set_self_def log_def call_cases

lemma close_smtp_result:
  "fst (close_smtp w s) = Inr () \<and>
   self (snd (close_smtp w s)) = (self s)\<lparr>server := None\<rparr> \<and>
   (\<exists>evs. trace (snd (close_smtp w s)) = trace s @ evs \<and>
          (server (self s) = None \<longrightarrow> evs = []) \<and>
          (server (self s) \<noteq> None \<longrightarrow> sock w (trace s) = False \<longrightarrow>
             evs = [Log Warning already_closed]))"
proof (cases "server (self s)")
  case None
  then show ?thesis by (simp add: close_smtp_def prog_simps)
next
  case (Some h)
  show ?thesis
  proof (cases "sock w (trace s)")
    case False
    with Some show ?thesis by (simp add: close_smtp_def prog_simps)
  next
    case True
    with Some show ?thesis
      by (cases "fails w (trace s @ [SmtpQuit])") (simp_all add: close_smtp_def prog_simps)
  qed
qed

lemma close_imap_result:
  "fst (close_imap w s) = Inr () \<and>
   self (snd (close_imap w s)) = (self s)\<lparr>imap := None\<rparr> \<and>
   (\<exists>evs. trace (snd (close_imap w s)) = trace s @ evs \<and>
          (imap (self s) = None \<longrightarrow> evs = []) \<and> SmtpQuit \<notin> set evs)"
proof (cases "imap (self s)")
  case None
  then show ?thesis by (simp add: close_imap_def prog_simps)
next
  case (Some h)
  then show ?thesis
    by (cases "fails w (trace s @ [ImapLogout])") (simp_all add: close_imap_def prog_simps)
qed

lemma close_connection_closed:
  "server (self s) = None \<Longrightarrow> imap (self s) = None \<Longrightarrow> close_connection w s = (Inr (), s)"
  by (simp add: close_connection_def close_smtp_def close_imap_def prog_simps)

lemma close_connection_steps:
  "close_connection w s = close_imap w (snd (close_smtp w s))"
  using close_smtp_result[of w s]
  by (cases "close_smtp w s") (simp add: close_connection_def pbind_def)

section \<open>Closing the connections\<close>

text \<open>
  C7. \<open>close_connection\<close> never raises and leaves both handles \<open>None\<close>, whatever the
  servers answer to the termination commands; a second \<open>close_connection\<close> (against
  any world) changes nothing and adds no event; and when the SMTP handle has already
  lost its socket, the first thing done is the warning, and \<open>quit\<close> is never sent.
\<close>

theorem close_connection_total:
  "fst (close_connection w s) = Inr () \<and>
   server (self (snd (close_connection w s))) = None \<and>
   imap (self (snd (close_connection w s))) = None \<and>
   close_connection w' (snd (close_connection w s)) = (Inr (), snd (close_connection w s)) \<and>
   (server (self s) \<noteq> None \<and> sock w (trace s) = False \<longrightarrow>
      take 1 (new_events (trace s) (trace (snd (close_connection w s)))) =
        [Log Warning already_closed] \<and>
      SmtpQuit \<notin> set (new_events (trace s) (trace (snd (close_connection w s)))))"
proof -
  define s1 where "s1 = snd (close_smtp w s)"
  define s2 where "s2 = snd (close_connection w s)"
  have s2: "s2 = snd (close_imap w s1)"
    by (simp add: s2_def s1_def close_connection_steps)
  have self1: "self s1 = (self s)\<lparr>server := None\<rparr>"
    using close_smtp_result[of w s] by (simp add: s1_def)
  obtain evs1 where tr1: "trace s1 = trace s @ evs1"
    and warn: "server (self s) \<noteq> None \<longrightarrow> sock w (trace s) = False \<longrightarrow>
                 evs1 = [Log Warning already_closed]"
    using close_smtp_result[of w s] unfolding s1_def by blast
  have ok: "fst (close_connection w s) = Inr ()"
    using close_imap_result[of w s1] by (simp add: close_connection_steps s1_def)
  have self2: "self s2 = (self s1)\<lparr>imap := None\<rparr>"
    using close_imap_result[of w s1] by (simp add: s2)
  obtain evs2 where tr2: "trace s2 = trace s1 @ evs2" and quit: "SmtpQuit \<notin> set evs2"
    using close_imap_result[of w s1] unfolding s2 by blast
  have sv: "server (self s2) = None" and im: "imap (self s2) = None"
    by (simp_all add: self2 self1)
  have again: "close_connection w' s2 = (Inr (), s2)"
    using sv im by (rule close_connection_closed)
  have new: "new_events (trace s) (trace s2) = evs1 @ evs2"
    by (simp add: new_events_def tr1 tr2)
  have sev: "server (self s) \<noteq> None \<and> sock w (trace s) = False \<longrightarrow>
      take 1 (new_events (trace s) (trace s2)) = [Log Warning already_closed] \<and>
      SmtpQuit \<notin> set (new_events (trace s) (trace s2))"
    using warn quit by (auto simp: new)
  from ok sv im again sev show ?thesis unfolding s2_def by blast
qed

theorem close_connection_total_witness:
  "server (self sample_state) \<noteq> None \<and> sock severed_world (trace sample_state) = False \<and>
   close_connection severed_world sample_state =
     (Inr (), \<lparr>self = sample_sender\<lparr>server := None, imap := None\<rparr>,
               trace = [Log Warning already_closed, ImapLogout,
                        Log Info (''Conex'' @ [CHR 0xE3] @ ''o IMAP encerrada.'')]\<rparr>) \<and>
   take 1 (new_events (trace sample_state) (trace (snd (close_connection severed_world sample_state)))) =
        [Log Warning already_closed] \<and>
   SmtpQuit \<notin> set (new_events (trace sample_state) (trace (snd (close_connection severed_world sample_state))))"
proof -
  have h: "server (self sample_state) \<noteq> None \<and> sock severed_world (trace sample_state) = False"
    by (simp add: sample_state_def sample_sender_def severed_world_def calm_world_def)
  have e: "close_connection severed_world sample_state =
     (Inr (), \<lparr>self = sample_sender\<lparr>server := None, imap := None\<rparr>,
               trace = [Log Warning already_closed, ImapLogout,
                        Log Info (''Conex'' @ [CHR 0xE3] @ ''o IMAP encerrada.'')]\<rparr>)"
    by (simp add: close_connection_def close_smtp_def close_imap_def prog_simps
        sample_state_def sample_sender_def severed_world_def calm_world_def fields_def)
  from h e close_connection_total[of severed_world sample_state calm_world]
  show ?thesis by blast
qed

section \<open>Constructing the sender\<close>

lemma connect_smtp_587:
  assumes "port (self s) = 587"
  shows "connect_smtp w s =
    (let a = trace s @ [SmtpOpen (url (self s)) 587];
         b = a @ [Starttls];
         c = b @ [SmtpLogin (login (self s)) (password (self s))]
     in case fails w a of
          Some e \<Rightarrow> (Inl (smtp_connection_error e), s\<lparr>trace := a\<rparr>)
        | None \<Rightarrow>
       (case fails w b of
          Some e \<Rightarrow> (Inl (smtp_connection_error e), s\<lparr>trace := b\<rparr>)
        | None \<Rightarrow>
       (case fails w c of
          Some e \<Rightarrow> (Inl (smtp_connection_error e), s\<lparr>trace := c\<rparr>)
        | None \<Rightarrow> (Inr SMTP, s\<lparr>trace := c @ [Log Info smtp_connected]\<rparr>))))"
  using assms
  by (simp add: connect_smtp_def prog_simps Let_def split: option.splits)

lemma connect_smtp_465:
  assumes "port (self s) = 465"
  shows "connect_smtp w s =
    (let a = trace s @ [SmtpSslOpen (url (self s)) 465];
         c = a @ [SmtpLogin (login (self s)) (password (self s))]
     in case fails w a of
          Some e \<Rightarrow> (Inl (smtp_connection_error e), s\<lparr>trace := a\<rparr>)
        | None \<Rightarrow>
       (case fails w c of
          Some e \<Rightarrow> (Inl (smtp_connection_error e), s\<lparr>trace := c\<rparr>)
        | None \<Rightarrow> (Inr SMTP_SSL, s\<lparr>trace := c @ [Log Info smtp_connected]\<rparr>)))"
  using assms
  by (simp add: connect_smtp_def prog_simps Let_def split: option.splits)

lemma connect_smtp_other:
  assumes "port (self s) \<noteq> 587" and "port (self s) \<noteq> 465"
  shows "connect_smtp w s = (Inl (smtp_connection_error (Exn ValueError invalid_port None)), s)"
  using assms
  by (simp add: connect_smtp_def prog_simps)

lemma connect_imap_cases:
  "connect_imap w s =
    (let a = trace s @ [ImapOpen (replace (url (self s)) ''smtp'' ''imap'') 993];
         c = a @ [ImapLogin (login (self s)) (password (self s))]
     in case fails w a of
          Some e \<Rightarrow> (Inl (imap_connection_error e), s\<lparr>trace := a\<rparr>)
        | None \<Rightarrow>
       (case fails w c of
          Some e \<Rightarrow> (Inl (imap_connection_error e), s\<lparr>trace := c\<rparr>)
        | None \<Rightarrow> (Inr IMAP4_SSL, s\<lparr>trace := c @ [Log Info imap_connected]\<rparr>)))"
  by (simp add: connect_imap_def prog_simps Let_def split: option.splits)


lemma EmailSender_steps:
  "EmailSender w url' port' login' password' signature_path' t =
     (case connect_smtp w \<lparr>self = fields url' port' login' password' signature_path', trace = t\<rparr> of
        (Inl e, s1) \<Rightarrow> (Inl e, trace s1)
      | (Inr h, s1) \<Rightarrow>
          (case connect_imap w (s1\<lparr>self := (self s1)\<lparr>server := Some h\<rparr>\<rparr>) of
             (Inl e, s2) \<Rightarrow> (Inl e, trace s2)
           | (Inr i, s2) \<Rightarrow>
               (Inr ((self s2)\<lparr>imap := Some i\<rparr>),
                trace s2 @ [Log Info (''Usando o email: '' @ login (self s2))])))"
  by (simp add: EmailSender_def init_def prog_simps split: prod.splits sum.splits)

lemma fields_simps:
  "url (fields u p l pw sg) = u" "port (fields u p l pw sg) = p"
  "login (fields u p l pw sg) = l" "password (fields u p l pw sg) = pw"
  "signature_path (fields u p l pw sg) = sg"
  "server (fields u p l pw sg) = None" "imap (fields u p l pw sg) = None"
  by (simp_all add: fields_def)

lemma EmailSender_587:
  "new_events t (snd (EmailSender w url' 587 login' password' signature_path' t)) \<noteq> [] \<and>
   (\<exists>rest. [SmtpOpen url' 587, Starttls, SmtpLogin login' password',
             Log Info smtp_connected,
             ImapOpen (replace url' ''smtp'' ''imap'') 993,
             ImapLogin login' password',
             Log Info imap_connected,
             Log Info (''Usando o email: '' @ login')] =
      new_events t (snd (EmailSender w url' 587 login' password' signature_path' t)) @ rest \<and>
      (rest = [] \<longleftrightarrow> \<not> isl (fst (EmailSender w url' 587 login' password' signature_path' t))))"
  by (cases "fails w (t @ [SmtpOpen url' 587])";
      cases "fails w (t @ [SmtpOpen url' 587, Starttls])";
      cases "fails w (t @ [SmtpOpen url' 587, Starttls, SmtpLogin login' password'])";
      cases "fails w (t @ [SmtpOpen url' 587, Starttls, SmtpLogin login' password',
             Log Info smtp_connected, ImapOpen (replace url' ''smtp'' ''imap'') 993])";
      cases "fails w (t @ [SmtpOpen url' 587, Starttls, SmtpLogin login' password',
             Log Info smtp_connected, ImapOpen (replace url' ''smtp'' ''imap'') 993,
             ImapLogin login' password'])";
      simp add: EmailSender_steps connect_smtp_587 connect_imap_cases fields_simps new_events_def)


lemma EmailSender_465:
  "new_events t (snd (EmailSender w url' 465 login' password' signature_path' t)) \<noteq> [] \<and>
   (\<exists>rest. [SmtpSslOpen url' 465, SmtpLogin login' password',
             Log Info smtp_connected,
             ImapOpen (replace url' ''smtp'' ''imap'') 993,
             ImapLogin login' password',
             Log Info imap_connected,
             Log Info (''Usando o email: '' @ login')] =
      new_events t (snd (EmailSender w url' 465 login' password' signature_path' t)) @ rest \<and>
      (rest = [] \<longleftrightarrow> \<not> isl (fst (EmailSender w url' 465 login' password' signature_path' t))))"
  by (cases "fails w (t @ [SmtpSslOpen url' 465])";
      cases "fails w (t @ [SmtpSslOpen url' 465, SmtpLogin login' password'])";
      cases "fails w (t @ [SmtpSslOpen url' 465, SmtpLogin login' password',
             Log Info smtp_connected, ImapOpen (replace url' ''smtp'' ''imap'') 993])";
      cases "fails w (t @ [SmtpSslOpen url' 465, SmtpLogin login' password',
             Log Info smtp_connected, ImapOpen (replace url' ''smtp'' ''imap'') 993,
             ImapLogin login' password'])";
      simp add: EmailSender_steps connect_smtp_465 connect_imap_cases fields_simps new_events_def)

lemma calm_fails: "fails calm_world t = None"
  by (simp add: calm_world_def)

text \<open>
  C8. With port 587 the events of the construction are, in this order, the plain
  connect, STARTTLS, the SMTP login (then the log line and the IMAP leg): what happens
  is a non-empty prefix of that sequence, and the whole of it exactly when the
  construction succeeds. With port 465 the sequence is the TLS-wrapped connect, then the
  login, and STARTTLS never occurs.
\<close>

theorem smtp_transport_order:
  "(port' = 587 \<longrightarrow>
      new_events t (snd (EmailSender w url' port' login' password' signature_path' t)) \<noteq> [] \<and>
      (\<exists>rest. [SmtpOpen url' 587, Starttls, SmtpLogin login' password',
                Log Info smtp_connected,
                ImapOpen (replace url' ''smtp'' ''imap'') 993,
                ImapLogin login' password',
                Log Info imap_connected,
                Log Info (''Usando o email: '' @ login')] =
         new_events t (snd (EmailSender w url' port' login' password' signature_path' t)) @ rest \<and>
         (rest = [] \<longleftrightarrow>
            \<not> isl (fst (EmailSender w url' port' login' password' signature_path' t))))) \<and>
   (port' = 465 \<longrightarrow>
      new_events t (snd (EmailSender w url' port' login' password' signature_path' t)) \<noteq> [] \<and>
      Starttls \<notin> set (new_events t (snd (EmailSender w url' port' login' password' signature_path' t))) \<and>
      (\<exists>rest. [SmtpSslOpen url' 465, SmtpLogin login' password',
                Log Info smtp_connected,
                ImapOpen (replace url' ''smtp'' ''imap'') 993,
                ImapLogin login' password',
                Log Info imap_connected,
                Log Info (''Usando o email: '' @ login')] =
         new_events t (snd (EmailSender w url' port' login' password' signature_path' t)) @ rest \<and>
         (rest = [] \<longleftrightarrow>
            \<not> isl (fst (EmailSender w url' port' login' password' signature_path' t)))))"
proof (intro conjI impI)
  assume p: "port' = 587"
  show "new_events t (snd (EmailSender w url' port' login' password' signature_path' t)) \<noteq> []"
    using EmailSender_587[of t w url' login' password' signature_path'] p by blast
  show "\<exists>rest. [SmtpOpen url' 587, Starttls, SmtpLogin login' password',
                Log Info smtp_connected,
                ImapOpen (replace url' ''smtp'' ''imap'') 993,
                ImapLogin login' password',
                Log Info imap_connected,
                Log Info (''Usando o email: '' @ login')] =
         new_events t (snd (EmailSender w url' port' login' password' signature_path' t)) @ rest \<and>
         (rest = [] \<longleftrightarrow>
            \<not> isl (fst (EmailSender w url' port' login' password' signature_path' t)))"
    using EmailSender_587[of t w url' login' password' signature_path'] p by blast
next
  assume p: "port' = 465"
  let ?new = "new_events t (snd (EmailSender w url' port' login' password' signature_path' t))"
  obtain rest where r: "[SmtpSslOpen url' 465, SmtpLogin login' password',
                Log Info smtp_connected,
                ImapOpen (replace url' ''smtp'' ''imap'') 993,
                ImapLogin login' password',
                Log Info imap_connected,
                Log Info (''Usando o email: '' @ login')] = ?new @ rest"
    and r2: "rest = [] \<longleftrightarrow>
            \<not> isl (fst (EmailSender w url' port' login' password' signature_path' t))"
    using EmailSender_465[of t w url' login' password' signature_path'] p by blast
  show "?new \<noteq> []"
    using EmailSender_465[of t w url' login' password' signature_path'] p by blast
  have "Starttls \<notin> set (?new @ rest)" by (subst r[symmetric]) simp
  then show "Starttls \<notin> set ?new" by simp
  from r r2 show "\<exists>rest. [SmtpSslOpen url' 465, SmtpLogin login' password',
                Log Info smtp_connected,
                ImapOpen (replace url' ''smtp'' ''imap'') 993,
                ImapLogin login' password',
                Log Info imap_connected,
                Log Info (''Usando o email: '' @ login')] = ?new @ rest \<and>
         (rest = [] \<longleftrightarrow>
            \<not> isl (fst (EmailSender w url' port' login' password' signature_path' t)))"
    by blast
qed

theorem smtp_transport_order_witness:
  "snd (EmailSender calm_world ''smtp.example.com'' 587 ''me@example.com'' ''secret'' None []) =
     [SmtpOpen ''smtp.example.com'' 587, Starttls, SmtpLogin ''me@example.com'' ''secret'',
      Log Info smtp_connected, ImapOpen ''imap.example.com'' 993,
      ImapLogin ''me@example.com'' ''secret'', Log Info imap_connected,
      Log Info ''Usando o email: me@example.com''] \<and>
   snd (EmailSender calm_world ''smtp.example.com'' 465 ''me@example.com'' ''secret'' None []) =
     [SmtpSslOpen ''smtp.example.com'' 465, SmtpLogin ''me@example.com'' ''secret'',
      Log Info smtp_connected, ImapOpen ''imap.example.com'' 993,
      ImapLogin ''me@example.com'' ''secret'', Log Info imap_connected,
      Log Info ''Usando o email: me@example.com'']"
proof -
  have a: "\<not> isl (fst (EmailSender calm_world ''smtp.example.com'' 587 ''me@example.com''
                          ''secret'' None []))"
    by (simp add: EmailSender_steps connect_smtp_587 connect_imap_cases fields_simps calm_fails)
  have b: "\<not> isl (fst (EmailSender calm_world ''smtp.example.com'' 465 ''me@example.com''
                          ''secret'' None []))"
    by (simp add: EmailSender_steps connect_smtp_465 connect_imap_cases fields_simps calm_fails)
  from a smtp_transport_order[of 587 "[]" calm_world "''smtp.example.com''" "''me@example.com''"
      "''secret''" None]
  have "snd (EmailSender calm_world ''smtp.example.com'' 587 ''me@example.com'' ''secret'' None []) =
     [SmtpOpen ''smtp.example.com'' 587, Starttls, SmtpLogin ''me@example.com'' ''secret'',
      Log Info smtp_connected, ImapOpen ''imap.example.com'' 993,
      ImapLogin ''me@example.com'' ''secret'', Log Info imap_connected,
      Log Info ''Usando o email: me@example.com'']"
    by (auto simp: new_events_def)
  moreover
  from b smtp_transport_order[of 465 "[]" calm_world "''smtp.example.com''" "''me@example.com''"
      "''secret''" None]
  have "snd (EmailSender calm_world ''smtp.example.com'' 465 ''me@example.com'' ''secret'' None []) =
     [SmtpSslOpen ''smtp.example.com'' 465, SmtpLogin ''me@example.com'' ''secret'',
      Log Info smtp_connected, ImapOpen ''imap.example.com'' 993,
      ImapLogin ''me@example.com'' ''secret'', Log Info imap_connected,
      Log Info ''Usando o email: me@example.com'']"
    by (auto simp: new_events_def)
  ultimately show ?thesis by blast
qed

lemma connect_smtp_shape:
  "self (snd (connect_smtp w s)) = self s \<and>
   (\<exists>evs. trace (snd (connect_smtp w s)) = trace s @ evs \<and> \<not> list_ex is_imap evs) \<and>
   (case fst (connect_smtp w s) of Inl e \<Rightarrow> kind e = ConnectionError | Inr h \<Rightarrow> True)"
proof -
  consider "port (self s) = 587" | "port (self s) = 465"
    | "port (self s) \<noteq> 587" "port (self s) \<noteq> 465" by blast
  then show ?thesis
  proof cases
    case 1
    then show ?thesis
      by (cases "fails w (trace s @ [SmtpOpen (url (self s)) 587])";
          cases "fails w (trace s @ [SmtpOpen (url (self s)) 587, Starttls])";
          cases "fails w (trace s @ [SmtpOpen (url (self s)) 587, Starttls,
                                     SmtpLogin (login (self s)) (password (self s))])";
          simp add: connect_smtp_587 smtp_connection_error_def)
  next
    case 2
    then show ?thesis
      by (cases "fails w (trace s @ [SmtpSslOpen (url (self s)) 465])";
          cases "fails w (trace s @ [SmtpSslOpen (url (self s)) 465,
                                     SmtpLogin (login (self s)) (password (self s))])";
          simp add: connect_smtp_465 smtp_connection_error_def)
  next
    case 3
    then show ?thesis by (simp add: connect_smtp_other smtp_connection_error_def)
  qed
qed

lemma connect_imap_shape:
  "self (snd (connect_imap w s)) = self s \<and>
   (\<exists>evs. trace (snd (connect_imap w s)) =
            trace s @ ImapOpen (replace (url (self s)) ''smtp'' ''imap'') 993 # evs) \<and>
   (case fst (connect_imap w s) of Inl e \<Rightarrow> kind e = ConnectionError | Inr h \<Rightarrow> True)"
  by (cases "fails w (trace s @ [ImapOpen (replace (url (self s)) ''smtp'' ''imap'') 993])";
      cases "fails w (trace s @ [ImapOpen (replace (url (self s)) ''smtp'' ''imap'') 993,
                                 ImapLogin (login (self s)) (password (self s))])";
      simp add: connect_imap_cases imap_connection_error_def)

lemma failing_on_fails:
  "fails (failing_on P) (t @ [ev]) = (if P ev then Some refused else None)"
  by (simp add: failing_on_def calm_world_def)

text \<open>
  C3, as the claim states it, fails: with port 25 the construction raises a
  ConnectionError (the ValueError of the port check is caught by the first \<open>except\<close>
  clause and wrapped), not an error of a kind distinct from ConnectionError.
\<close>

theorem invalid_port_counterexample:
  "fst (EmailSender calm_world ''smtp.example.com'' 25 ''me@example.com'' ''secret'' None []) =
     Inl (Exn ConnectionError (''Falha ao conectar ao servidor SMTP: '' @ invalid_port)
            (Some (Exn ValueError invalid_port None)))"
  by (simp add: EmailSender_steps connect_smtp_other fields_simps smtp_connection_error_def)

text \<open>
  C3, amended. For every port other than 587 and 465 the construction fails with
  ConnectionError, whose cause is the ValueError of the port check, and it does so
  before any network call: the history of events is unchanged.
\<close>

theorem invalid_port_fails:
  assumes "port' \<noteq> 587" and "port' \<noteq> 465"
  shows "EmailSender w url' port' login' password' signature_path' t =
           (Inl (Exn ConnectionError (''Falha ao conectar ao servidor SMTP: '' @ invalid_port)
                   (Some (Exn ValueError invalid_port None))), t)"
  using assms
  by (simp add: EmailSender_steps connect_smtp_other fields_simps smtp_connection_error_def)

theorem invalid_port_fails_witness:
  "(25::int) \<noteq> 587 \<and> (25::int) \<noteq> 465 \<and>
   EmailSender (failing_on is_smtp) ''smtp.example.com'' 25 ''me@example.com'' ''secret'' None [] =
     (Inl (Exn ConnectionError (''Falha ao conectar ao servidor SMTP: '' @ invalid_port)
             (Some (Exn ValueError invalid_port None))), [])"
proof -
  have a: "(25::int) \<noteq> 587" and b: "(25::int) \<noteq> 465" by simp_all
  from a b invalid_port_fails[OF a b, of "failing_on is_smtp" "''smtp.example.com''"
      "''me@example.com''" "''secret''" None "[]"]
  show ?thesis by simp
qed

text \<open>
  C9, as the claim states it, fails: when the SMTP server refuses the connection the
  construction raises at once and the IMAP leg is never attempted.
\<close>

theorem imap_leg_skipped_counterexample:
  "EmailSender (failing_on is_smtp) ''smtp.example.com'' 587 ''me@example.com'' ''secret'' None [] =
     (Inl (smtp_connection_error refused), [SmtpOpen ''smtp.example.com'' 587]) \<and>
   \<not> list_ex is_imap [SmtpOpen ''smtp.example.com'' 587]"
  by (simp add: EmailSender_steps connect_smtp_587 fields_simps failing_on_def calm_world_def)

text \<open>
  C9, amended. The SMTP leg is attempted first and the IMAP leg is attempted exactly
  when the SMTP leg has succeeded. If either leg fails the construction raises that
  leg's ConnectionError and the caller gets no object; an object the caller does get
  has both handles set.
\<close>

theorem construction_all_or_nothing:
  fixes w url' port' login' password' signature_path' t
  defines "s0 \<equiv> \<lparr>self = fields url' port' login' password' signature_path', trace = t\<rparr>"
  defines "R \<equiv> EmailSender w url' port' login' password' signature_path' t"
  shows
    "(case fst R of
        Inl e \<Rightarrow> kind e = ConnectionError
      | Inr obj \<Rightarrow> server obj \<noteq> None \<and> imap obj \<noteq> None) \<and>
     (list_ex is_imap (new_events t (snd R)) \<longleftrightarrow> \<not> isl (fst (connect_smtp w s0))) \<and>
     (\<forall>e. fst (connect_smtp w s0) = Inl e \<longrightarrow> R = (Inl e, trace (snd (connect_smtp w s0)))) \<and>
     (\<forall>h e. fst (connect_smtp w s0) = Inr h \<longrightarrow>
          fst (connect_imap w ((snd (connect_smtp w s0))\<lparr>self := (self s0)\<lparr>server := Some h\<rparr>\<rparr>))
            = Inl e \<longrightarrow>
          fst R = Inl e)"
proof -
  obtain r1 s1 where c1: "connect_smtp w s0 = (r1, s1)" by (cases "connect_smtp w s0")
  have self1: "self s1 = self s0"
    using connect_smtp_shape[of w s0] c1 by simp
  obtain evs1 where tr1: "trace s1 = t @ evs1" and noimap: "\<not> list_ex is_imap evs1"
    using connect_smtp_shape[of w s0] c1 by (auto simp: s0_def)
  have k1: "case r1 of Inl e \<Rightarrow> kind e = ConnectionError | Inr h \<Rightarrow> True"
    using connect_smtp_shape[of w s0] c1 by simp
  show ?thesis
  proof (cases r1)
    case (Inl e)
    have R: "R = (Inl e, trace s1)"
      using c1 Inl by (simp add: R_def EmailSender_steps s0_def)
    show ?thesis using R Inl k1 c1 tr1 noimap by (simp add: new_events_def)
  next
    case (Inr h)
    define s1' where "s1' = s1\<lparr>self := (self s1)\<lparr>server := Some h\<rparr>\<rparr>"
    obtain r2 s2 where c2: "connect_imap w s1' = (r2, s2)" by (cases "connect_imap w s1'")
    have self2: "self s2 = (self s0)\<lparr>server := Some h\<rparr>"
      using connect_imap_shape[of w s1'] c2 by (simp add: s1'_def self1)
    obtain evs2 where tr2: "trace s2 = t @ evs1 @ ImapOpen (replace (url (self s1')) ''smtp'' ''imap'') 993 # evs2"
      using connect_imap_shape[of w s1'] c2 by (auto simp: s1'_def tr1)
    have k2: "case r2 of Inl e \<Rightarrow> kind e = ConnectionError | Inr h \<Rightarrow> True"
      using connect_imap_shape[of w s1'] c2 by simp
    show ?thesis
    proof (cases r2)
      case (Inl e)
      have R: "R = (Inl e, trace s2)"
        using c1 c2 Inr Inl by (simp add: R_def EmailSender_steps s0_def s1'_def)
      show ?thesis using R Inl Inr k2 c1 c2 tr2 self1
        by (simp add: new_events_def s1'_def)
    next
      case (Inr i)
      have R: "R = (Inr ((self s2)\<lparr>imap := Some i\<rparr>),
                    trace s2 @ [Log Info (''Usando o email: '' @ login (self s2))])"
        using c1 c2 Inr \<open>r1 = Inr h\<close> by (simp add: R_def EmailSender_steps s0_def s1'_def)
      show ?thesis using R Inr \<open>r1 = Inr h\<close> c1 c2 tr2 self1 self2
        by (simp add: new_events_def s1'_def)
    qed
  qed
qed

theorem construction_all_or_nothing_witness:
  "EmailSender (failing_on is_smtp) ''smtp.example.com'' 587 ''me@example.com'' ''secret'' None [] =
     (Inl (smtp_connection_error refused), [SmtpOpen ''smtp.example.com'' 587]) \<and>
   fst (EmailSender (failing_on is_imap) ''smtp.example.com'' 587 ''me@example.com'' ''secret''
          None []) = Inl (imap_connection_error refused) \<and>
   list_ex is_imap
     (new_events [] (snd (EmailSender calm_world ''smtp.example.com'' 587 ''me@example.com''
                            ''secret'' None [])))"
proof -
  let ?s0 = "\<lparr>self = fields ''smtp.example.com'' 587 ''me@example.com'' ''secret'' None,
               trace = []\<rparr>"
  have a: "connect_smtp (failing_on is_smtp) ?s0 =
             (Inl (smtp_connection_error refused), ?s0\<lparr>trace := [SmtpOpen ''smtp.example.com'' 587]\<rparr>)"
    using failing_on_fails[of is_smtp "[]"]
    by (simp add: connect_smtp_587 fields_simps)
  have b: "connect_smtp (failing_on is_imap) ?s0 =
             (Inr SMTP, ?s0\<lparr>trace := [SmtpOpen ''smtp.example.com'' 587, Starttls,
                SmtpLogin ''me@example.com'' ''secret'', Log Info smtp_connected]\<rparr>)"
    using failing_on_fails[of is_imap "[]"] failing_on_fails[of is_imap "[x]" for x]
      failing_on_fails[of is_imap "[x, y]" for x y]
    by (simp add: connect_smtp_587 fields_simps)
  have b2: "fst (connect_imap (failing_on is_imap)
              ((snd (connect_smtp (failing_on is_imap) ?s0))
                 \<lparr>self := (self ?s0)\<lparr>server := Some SMTP\<rparr>\<rparr>)) = Inl (imap_connection_error refused)"
    using failing_on_fails[of is_imap "[a, b, c, d]" for a b c d]
    by (simp add: b connect_imap_cases fields_simps)
  have c: "\<not> isl (fst (connect_smtp calm_world ?s0))"
    by (simp add: connect_smtp_587 fields_simps calm_fails)
  note inst = construction_all_or_nothing[where url' = "''smtp.example.com''" and port' = 587
      and login' = "''me@example.com''" and password' = "''secret''"
      and signature_path' = None and t = "[]"]
  from inst[where w = "failing_on is_smtp"] a
  have "EmailSender (failing_on is_smtp) ''smtp.example.com'' 587 ''me@example.com'' ''secret'' None [] =
     (Inl (smtp_connection_error refused), [SmtpOpen ''smtp.example.com'' 587])"
    by simp
  moreover from inst[where w = "failing_on is_imap"] b b2
  have "fst (EmailSender (failing_on is_imap) ''smtp.example.com'' 587 ''me@example.com'' ''secret''
          None []) = Inl (imap_connection_error refused)"
    by simp
  moreover from inst[where w = calm_world] c
  have "list_ex is_imap
     (new_events [] (snd (EmailSender calm_world ''smtp.example.com'' 587 ''me@example.com''
                            ''secret'' None [])))"
    by blast
  ultimately show ?thesis by blast
qed

section \<open>Splitting and replacing\<close>

lemma split_from_nonempty: "split_from sep seg s \<noteq> []"
  by (induction sep seg s rule: split_from.induct) auto

lemma join_cons: "ys \<noteq> [] \<Longrightarrow> join sep (x # ys) = x @ sep @ join sep ys"
  by (cases ys) auto

lemma join_split_from:
  "join new (split_from old seg s) = seg @ replace s old new"
  by (induction old seg s rule: split_from.induct)
     (auto simp: join_cons split_from_nonempty)

lemma replace_join_split: "replace s old new = join new (str_split s old)"
  by (simp add: str_split_def join_split_from)

lemma startswith_decompose: "startswith p s \<Longrightarrow> s = p @ drop (length p) s"
  by (induction p s rule: startswith.induct) (auto split: if_splits)

lemma startswith_append: "startswith p (p @ s)"
  by (induction p) auto

lemma contains_here: "startswith p s \<Longrightarrow> contains p s"
  by (cases s) auto

lemma contains_append: "contains p (a @ p @ b)"
  by (induction a) (auto simp: startswith_append contains_here)

lemma contains_append_left: "contains p x \<Longrightarrow> contains p (a @ x)"
  by (induction a) auto

lemma replace_absent: "\<not> contains old s \<Longrightarrow> replace s old new = s"
  by (induction s old new rule: replace.induct) (auto split: if_splits)

lemma replace_smtp_head:
  "replace (''smtp'' @ rest) ''smtp'' ''imap'' = ''imap'' @ replace rest ''smtp'' ''imap''"
  by simp

lemma mtp_back:
  "startswith ''mtp'' (replace cs ''smtp'' ''imap'') \<Longrightarrow> startswith ''mtp'' cs"
proof (cases cs)
  case Nil
  assume "startswith ''mtp'' (replace cs ''smtp'' ''imap'')"
  with Nil show ?thesis by simp
next
  case (Cons c1 cs1)
  assume a: "startswith ''mtp'' (replace cs ''smtp'' ''imap'')"
  with Cons have c1: "c1 = CHR ''m''" and a1: "startswith ''tp'' (replace cs1 ''smtp'' ''imap'')"
    by (auto split: if_splits)
  show ?thesis
  proof (cases cs1)
    case Nil
    with a1 show ?thesis by simp
  next
    case (Cons c2 cs2)
    with a1 have c2: "c2 = CHR ''t''" and a2: "startswith ''p'' (replace cs2 ''smtp'' ''imap'')"
      by (auto split: if_splits)
    have "startswith ''p'' cs2"
      using a2 by (cases cs2) (auto split: if_splits)
    with c1 c2 \<open>cs = c1 # cs1\<close> Cons show ?thesis by simp
  qed
qed

lemma replace_no_smtp: "\<not> contains ''smtp'' (replace s ''smtp'' ''imap'')"
proof (induction "length s" arbitrary: s rule: less_induct)
  case less
  show ?case
  proof (cases s)
    case Nil
    then show ?thesis by simp
  next
    case (Cons c cs)
    show ?thesis
    proof (cases "startswith ''smtp'' s")
      case True
      define rest where "rest = drop (length ''smtp'') s"
      from startswith_decompose[OF True] have s: "s = ''smtp'' @ rest"
        by (simp add: rest_def)
      have "length s = length ''smtp'' + length rest" by (subst s) simp
      then have "length rest < length s" by simp
      from less[OF this] have "\<not> contains ''smtp'' (replace rest ''smtp'' ''imap'')" .
      then have "\<not> contains ''smtp'' (''imap'' @ replace rest ''smtp'' ''imap'')" by simp
      moreover have "replace s ''smtp'' ''imap'' = ''imap'' @ replace rest ''smtp'' ''imap''"
        using s replace_smtp_head[of rest] by metis
      ultimately show ?thesis by (simp only: not_False_eq_True)
    next
      case False
      have "length cs < length s" using Cons by simp
      from less[OF this] have ih: "\<not> contains ''smtp'' (replace cs ''smtp'' ''imap'')" .
      have r: "replace s ''smtp'' ''imap'' = c # replace cs ''smtp'' ''imap''"
        using False Cons by simp
      have "\<not> startswith ''smtp'' (c # replace cs ''smtp'' ''imap'')"
      proof
        assume h: "startswith ''smtp'' (c # replace cs ''smtp'' ''imap'')"
        then have c: "c = CHR ''s''" and "startswith ''mtp'' (replace cs ''smtp'' ''imap'')"
          by (auto split: if_splits)
        then have "startswith ''mtp'' cs" using mtp_back by blast
        with c Cons False show False by simp
      qed
      with ih show ?thesis unfolding r by simp
    qed
  qed
qed

lemma replace_first_agrees:
  "\<not> contains old (replace_first s old new) \<Longrightarrow> replace s old new = replace_first s old new"
proof (induction s old new rule: replace_first.induct)
  case (1 old new)
  show ?case by simp
next
  case (2 c cs old new)
  show ?case
  proof (cases "old \<noteq> [] \<and> startswith old (c # cs)")
    case True
    with 2(2) have "\<not> contains old (new @ drop (length old) (c # cs))" by simp
    then have "\<not> contains old (drop (length old) (c # cs))"
      using contains_append_left by blast
    then have "replace (drop (length old) (c # cs)) old new = drop (length old) (c # cs)"
      by (rule replace_absent)
    with True show ?thesis by simp
  next
    case False
    with 2(2) have "\<not> contains old (c # replace_first cs old new)" by auto
    then have "\<not> contains old (replace_first cs old new)" by (auto split: if_splits)
    with 2(1) False have "replace cs old new = replace_first cs old new" by blast
    with False show ?thesis by auto
  qed
qed

section \<open>The IMAP host\<close>

text \<open>
  C2, as the claim states it, fails: \<open>str.replace\<close> without a count replaces every
  occurrence, so the host \<open>smtpsmtp.foo\<close> makes the IMAP leg connect to
  \<open>imapimap.foo\<close>, not to the \<open>imapsmtp.foo\<close> that replacing the first occurrence
  gives.
\<close>

theorem imap_host_counterexample:
  "trace (snd (connect_imap calm_world
                 \<lparr>self = fields ''smtpsmtp.foo'' 465 ''me@example.com'' ''secret'' None,
                  trace = []\<rparr>)) =
     [ImapOpen ''imapimap.foo'' 993, ImapLogin ''me@example.com'' ''secret'',
      Log Info imap_connected] \<and>
   replace_first ''smtpsmtp.foo'' ''smtp'' ''imap'' = ''imapsmtp.foo'' \<and>
   ''imapimap.foo'' \<noteq> ''imapsmtp.foo''"
  by (simp add: connect_imap_cases fields_simps calm_fails)

text \<open>
  C2, amended. The host the IMAP leg connects to (on port 993, its first call) is the
  SMTP host with every occurrence of \<open>smtp\<close>, taken left to right without overlap,
  replaced by \<open>imap\<close>: it is the host split on \<open>smtp\<close> and joined with \<open>imap\<close>, and
  no \<open>smtp\<close> is left in it. It is the first-occurrence replacement whenever that one
  leaves no \<open>smtp\<close> behind, and \<open>smtpsmtp.foo\<close> gives \<open>imapimap.foo\<close>.
\<close>

theorem imap_host_replaces_all:
  "(\<exists>evs. trace (snd (connect_imap w s)) =
            trace s @ ImapOpen (replace (url (self s)) ''smtp'' ''imap'') 993 # evs) \<and>
   replace (url (self s)) ''smtp'' ''imap'' = join ''imap'' (str_split (url (self s)) ''smtp'') \<and>
   \<not> contains ''smtp'' (replace (url (self s)) ''smtp'' ''imap'') \<and>
   (\<not> contains ''smtp'' (replace_first (url (self s)) ''smtp'' ''imap'') \<longrightarrow>
      replace (url (self s)) ''smtp'' ''imap'' = replace_first (url (self s)) ''smtp'' ''imap'') \<and>
   replace ''smtpsmtp.foo'' ''smtp'' ''imap'' = ''imapimap.foo''"
proof (intro conjI)
  show "\<exists>evs. trace (snd (connect_imap w s)) =
            trace s @ ImapOpen (replace (url (self s)) ''smtp'' ''imap'') 993 # evs"
    using connect_imap_shape[of w s] by blast
  show "replace (url (self s)) ''smtp'' ''imap'' = join ''imap'' (str_split (url (self s)) ''smtp'')"
    by (rule replace_join_split)
  show "\<not> contains ''smtp'' (replace (url (self s)) ''smtp'' ''imap'')"
    by (rule replace_no_smtp)
  show "\<not> contains ''smtp'' (replace_first (url (self s)) ''smtp'' ''imap'') \<longrightarrow>
      replace (url (self s)) ''smtp'' ''imap'' = replace_first (url (self s)) ''smtp'' ''imap''"
    using replace_first_agrees by blast
  show "replace ''smtpsmtp.foo'' ''smtp'' ''imap'' = ''imapimap.foo''" by simp
qed

theorem imap_host_replaces_all_witness:
  "\<not> contains ''smtp'' (replace_first ''smtp.example.com'' ''smtp'' ''imap'') \<and>
   replace ''smtp.example.com'' ''smtp'' ''imap'' = ''imap.example.com'' \<and>
   replace_first ''smtp.example.com'' ''smtp'' ''imap'' = ''imap.example.com''"
proof -
  have f: "replace_first ''smtp.example.com'' ''smtp'' ''imap'' = ''imap.example.com''"
    by simp
  have h: "\<not> contains ''smtp'' (replace_first ''smtp.example.com'' ''smtp'' ''imap'')"
    unfolding f by simp
  have u: "url (self \<lparr>self = fields ''smtp.example.com'' 587 ''me@example.com'' ''secret'' None,
                       trace = []\<rparr>) = ''smtp.example.com''"
    by (simp add: fields_simps)
  from imap_host_replaces_all[of calm_world
      "\<lparr>self = fields ''smtp.example.com'' 587 ''me@example.com'' ''secret'' None, trace = []\<rparr>"]
  have "\<not> contains ''smtp'' (replace_first ''smtp.example.com'' ''smtp'' ''imap'') \<longrightarrow>
      replace ''smtp.example.com'' ''smtp'' ''imap'' = replace_first ''smtp.example.com'' ''smtp'' ''imap''"
    unfolding u by blast
  with h f show ?thesis by simp
qed

section \<open>The sent folder\<close>

lemma scan_providers_find:
  "scan_providers table name sf =
     (case List.find (\<lambda>(provider, folder). mentions provider name) table of
        Some (provider, folder) \<Rightarrow> Some folder | None \<Rightarrow> sf)"
  by (induction table name sf rule: scan_providers.induct) (auto simp: mentions_def)

lemma email_folders_nonempty:
  "List.find P email_folders = Some (provider, folder) \<Longrightarrow> folder \<noteq> []"
  by (auto simp: email_folders_def split: if_splits)

lemma sent_entry_decides:
  assumes "mentions ''sent'' name"
  shows "scan_mailboxes (Utf8 name # rest) None = Inr (Some (folder_of name))"
proof (cases "List.find (\<lambda>(provider, folder). mentions provider name) email_folders")
  case None
  with assms show ?thesis
    by (simp add: folder_of_def mentions_def[symmetric] scan_providers_find falsy_def
        last_item_def str_split_def split_from_nonempty)
next
  case (Some pf)
  obtain provider folder where pf: "pf = (provider, folder)" by (cases pf)
  from Some pf have "folder \<noteq> []" using email_folders_nonempty by blast
  with assms Some pf show ?thesis
    by (simp add: folder_of_def mentions_def[symmetric] scan_providers_find falsy_def)
qed

lemma scan_mailboxes_decides: "scan_mailboxes listing None = resolve_listing listing"
proof (induction listing)
  case Nil
  show ?case by (simp add: resolve_listing_def)
next
  case (Cons m listing)
  show ?case
  proof (cases m)
    case (Undecodable e)
    then show ?thesis by (simp add: resolve_listing_def decides_def)
  next
    case (Utf8 name)
    show ?thesis
    proof (cases "mentions ''sent'' name")
      case True
      then have "scan_mailboxes (Utf8 name # listing) None = Inr (Some (folder_of name))"
        by (rule sent_entry_decides)
      with True Utf8 show ?thesis by (simp add: resolve_listing_def decides_def)
    next
      case False
      with Cons Utf8 show ?thesis
        by (simp add: resolve_listing_def decides_def mentions_def)
    qed
  qed
qed

lemma resolve_listing_decoded: "resolve_listing (map Utf8 names) = Inr (resolve names)"
  by (induction names) (simp_all add: resolve_listing_def resolve_def decides_def)

lemma scan_mailboxes_resolve:
  "scan_mailboxes (map Utf8 names) None = Inr (resolve names)"
  by (simp add: scan_mailboxes_decides resolve_listing_decoded)

text \<open>
  C1, as the claim states it, fails: \<open>decode()\<close> is called on every entry up to the
  first one that contains \<open>sent\<close>, outside any \<open>try\<close>. On the listing \<open>[None]\<close> of
  an account without mailboxes no entry contains \<open>sent\<close>, yet the resolver raises
  instead of returning \<open>None\<close>; and bytes that are not UTF-8 before the entry of the
  sent folder make it raise instead of giving the folder of that entry.
\<close>

theorem undecodable_listing_counterexample:
  "find_sent_folder (listing_world none_listing) sample_state =
     (Inl (none_has_no_attribute ''decode''), sample_state\<lparr>trace := [ImapList]\<rparr>) \<and>
   scan_mailboxes bad_bytes_listing None = Inl bad_bytes"
  by (simp add: find_sent_folder_def imap_list_def prog_simps listing_world_def calm_world_def
      none_listing_def bad_bytes_listing_def sample_state_def sample_sender_def fields_def)

text \<open>
  C1, amended. For every mailbox listing the resolver is decided solely by the first
  entry that either fails to decode or whose decoded text contains \<open>sent\<close> in any
  letter case. If that entry fails to decode, the resolver raises its decoding error
  and returns nothing. If it contains \<open>sent\<close>, the result is the folder of the first
  provider keyword of the table (gmail, yahoo, outlook, hotmail, aol, icloud) found in
  it, otherwise the last segment of the entry split on the delimiter; the entries after
  it do not matter. If every entry decodes and none contains \<open>sent\<close>, the result is
  \<open>None\<close>. On a listing whose entries all decode this is the resolver of the
  specification, and it is what \<open>_find_sent_folder\<close> returns once \<open>list()\<close> has
  answered.
\<close>

theorem find_sent_folder_decides:
  "scan_mailboxes listing None = resolve_listing listing \<and>
   resolve_listing (map Utf8 names) = Inr (resolve names) \<and>
   (imap (self s) \<noteq> None \<longrightarrow> fails w (trace s @ [ImapList]) = None \<longrightarrow>
      find_sent_folder w s =
        (resolve_listing (snd (list_reply w (trace s @ [ImapList]))),
         s\<lparr>trace := trace s @ [ImapList]\<rparr>))"
proof (intro conjI impI)
  show "scan_mailboxes listing None = resolve_listing listing"
    by (rule scan_mailboxes_decides)
  show "resolve_listing (map Utf8 names) = Inr (resolve names)"
    by (rule resolve_listing_decoded)
  assume "imap (self s) \<noteq> None" and ok: "fails w (trace s @ [ImapList]) = None"
  then obtain h where live: "imap (self s) = Some h" by blast
  obtain status mailboxes where
    reply: "list_reply w (trace s @ [ImapList]) = (status, mailboxes)"
    by (cases "list_reply w (trace s @ [ImapList])")
  from live ok reply show "find_sent_folder w s =
        (resolve_listing (snd (list_reply w (trace s @ [ImapList]))),
         s\<lparr>trace := trace s @ [ImapList]\<rparr>)"
    by (simp add: find_sent_folder_def imap_list_def prog_simps scan_mailboxes_decides)
qed

theorem find_sent_folder_decides_witness:
  "imap (self sample_state) \<noteq> None \<and>
   fails calm_world (trace sample_state @ [ImapList]) = None \<and>
   find_sent_folder calm_world sample_state =
     (Inr (Some ''Enviados''), sample_state\<lparr>trace := [ImapList]\<rparr>) \<and>
   scan_mailboxes [Utf8 ''INBOX'', Utf8 ''[Gmail]/Sent Mail'', Undecodable bad_bytes] None =
     Inr (Some ([CHR 0x22] @ ''[Gmail]/Sent Mail'' @ [CHR 0x22])) \<and>
   scan_mailboxes [Utf8 ''INBOX'', Undecodable bad_bytes, Utf8 ''Sent''] None = Inl bad_bytes \<and>
   scan_mailboxes [Utf8 ''INBOX'', Utf8 ''Trash''] None = Inr None"
proof -
  have a: "imap (self sample_state) \<noteq> None"
    by (simp add: sample_state_def sample_sender_def fields_def)
  have b: "fails calm_world (trace sample_state @ [ImapList]) = None"
    by (rule calm_fails)
  have c: "snd (list_reply calm_world (trace sample_state @ [ImapList])) =
             map Utf8 sample_listing"
    by (simp add: calm_world_def)
  have r: "resolve_listing (map Utf8 sample_listing) = Inr (Some ''Enviados'')"
    by code_simp
  have g: "resolve_listing [Utf8 ''INBOX'', Utf8 ''[Gmail]/Sent Mail'', Undecodable bad_bytes] =
             Inr (Some ([CHR 0x22] @ ''[Gmail]/Sent Mail'' @ [CHR 0x22]))"
    by code_simp
  have u: "resolve_listing [Utf8 ''INBOX'', Undecodable bad_bytes, Utf8 ''Sent''] = Inl bad_bytes"
    by code_simp
  have n: "resolve_listing [Utf8 ''INBOX'', Utf8 ''Trash''] = Inr None"
    by code_simp
  have t: "trace sample_state = []" by (simp add: sample_state_def)
  from find_sent_folder_decides[of _ _ sample_state calm_world] a b c r t
  have f: "find_sent_folder calm_world sample_state =
     (Inr (Some ''Enviados''), sample_state\<lparr>trace := [ImapList]\<rparr>)" by simp
  from find_sent_folder_decides[of "[Utf8 ''INBOX'', Utf8 ''[Gmail]/Sent Mail'',
      Undecodable bad_bytes]"] g
  have g': "scan_mailboxes [Utf8 ''INBOX'', Utf8 ''[Gmail]/Sent Mail'', Undecodable bad_bytes]
              None = Inr (Some ([CHR 0x22] @ ''[Gmail]/Sent Mail'' @ [CHR 0x22]))"
    by (simp only:)
  from find_sent_folder_decides[of "[Utf8 ''INBOX'', Undecodable bad_bytes, Utf8 ''Sent'']"] u
  have u': "scan_mailboxes [Utf8 ''INBOX'', Undecodable bad_bytes, Utf8 ''Sent''] None =
              Inl bad_bytes"
    by (simp only:)
  from find_sent_folder_decides[of "[Utf8 ''INBOX'', Utf8 ''Trash'']"] n
  have n': "scan_mailboxes [Utf8 ''INBOX'', Utf8 ''Trash''] None = Inr None"
    by (simp only:)
  from a b f g' u' n' show ?thesis by blast
qed

section \<open>Sending\<close>

lemma sendmail_cases:
  "sendmail w from_addr to_addrs m s =
     (if server (self s) = None then (Inl (none_has_no_attribute ''sendmail''), s)
      else call w (Sendmail from_addr to_addrs m) s)"
  by (simp add: sendmail_def pbind_def get_self_def praise_def)

lemma find_sent_folder_cases:
  "find_sent_folder w s =
     (if imap (self s) = None then (Inl (none_has_no_attribute ''list''), s)
      else (case fails w (trace s @ [ImapList]) of
              Some e \<Rightarrow> (Inl e, s\<lparr>trace := trace s @ [ImapList]\<rparr>)
            | None \<Rightarrow> (scan_mailboxes (snd (list_reply w (trace s @ [ImapList]))) None,
                       s\<lparr>trace := trace s @ [ImapList]\<rparr>)))"
  by (simp add: find_sent_folder_def imap_list_def prog_simps split: option.splits prod.splits)

lemma imap_append_cases:
  "imap_append w mailbox message s =
     (if imap (self s) = None then (Inl (none_has_no_attribute ''append''), s)
      else call w (ImapAppend mailbox [] (internaldate w (trace s)) message) s)"
  by (simp add: imap_append_def pbind_def get_self_def praise_def)

lemma send_body_cases:
  "send_body w subject email s =
    (let t1 = trace s @ [Log Info (sending subject)];
         t2 = t1 @ [Sendmail (login (self s)) (email_recipients email) (email_msg email)];
         t3 = t2 @ [Log Info ''E-mail enviado com sucesso''];
         t4 = t3 @ [ImapList]
     in if server (self s) = None
        then (Inl (none_has_no_attribute ''sendmail''), s\<lparr>trace := t1\<rparr>)
        else case fails w t2 of
          Some e \<Rightarrow> (Inl e, s\<lparr>trace := t2\<rparr>)
        | None \<Rightarrow>
        if imap (self s) = None
        then (Inl (none_has_no_attribute ''list''), s\<lparr>trace := t3\<rparr>)
        else case fails w t4 of
          Some e \<Rightarrow> (Inl e, s\<lparr>trace := t4\<rparr>)
        | None \<Rightarrow>
       (case scan_mailboxes (snd (list_reply w t4)) None of
          Inl e \<Rightarrow> (Inl e, s\<lparr>trace := t4\<rparr>)
        | Inr sent_folder \<Rightarrow>
            (let t5 = t4 @ [Log Info (saving sent_folder)];
                 t6 = t5 @ [ImapAppend sent_folder [] (internaldate w t5)
                              (encode_utf8 (email_msg email))]
             in case fails w t6 of
                  Some e \<Rightarrow> (Inl e, s\<lparr>trace := t6\<rparr>)
                | None \<Rightarrow> (Inr (SMTPResponse True email None None),
                           s\<lparr>trace := t6 @ [Log Info ''E-mail salvo com sucesso'']\<rparr>))))"
  by (simp add: send_body_def sendmail_cases find_sent_folder_cases imap_append_cases
      prog_simps Let_def split: option.splits sum.splits)

lemma send_cases:
  "send w subject body to_email cc_emails file_path s =
     (case build_email w (login (self s)) subject body to_email cc_emails file_path
             (signature_path (self s)) of
        Inl e \<Rightarrow> (Inl e, s)
      | Inr email \<Rightarrow>
          (case send_body w subject email s of
             (Inl e, s') \<Rightarrow>
               (Inr (SMTPResponse False email (Some (send_error to_email e)) (Some 500)),
                s'\<lparr>trace := trace s' @ [Log Error (send_error to_email e)]\<rparr>)
           | (Inr r, s') \<Rightarrow> (Inr r, s')))"
  by (simp add: send_def prog_simps Let_def split: sum.splits prod.splits)

lemma close_connection_self:
  "self (snd (close_connection w s)) = (self s)\<lparr>server := None, imap := None\<rparr>"
  using close_smtp_result[of w s] close_imap_result[of w "snd (close_smtp w s)"]
  by (simp add: close_connection_steps)

lemma calm_build:
  "build_email calm_world a b c d e f g = Inr (sample_email a b c d e f g)"
  by (simp add: calm_world_def)

lemma failing_on_build:
  "build_email (failing_on P) a b c d e f g = Inr (sample_email a b c d e f g)"
  by (simp add: failing_on_def calm_world_def)

lemma resolve_sample: "resolve sample_listing = Some ''Enviados''"
  by code_simp

lemma sample_state_simps:
  "server (self sample_state) = Some SMTP" "imap (self sample_state) = Some IMAP4_SSL"
  "login (self sample_state) = ''me@example.com''" "signature_path (self sample_state) = None"
  "trace sample_state = []"
  by (simp_all add: sample_state_def sample_sender_def fields_def)

lemma failing_on_simps:
  "fails (failing_on P) [] = None"
  "fails (failing_on P) (t @ [ev]) = (if P ev then Some refused else None)"
  "list_reply (failing_on P) t = (''OK'', map Utf8 sample_listing)"
  by (simp_all add: failing_on_def calm_world_def)

lemma calm_list_reply: "list_reply calm_world t = (''OK'', map Utf8 sample_listing)"
  by (simp add: calm_world_def)

lemma send_body_transmit_refused:
  "fst (send_body (failing_on is_sendmail) ''Hello'' email sample_state) = Inl refused"
  using failing_on_simps(2)[of is_sendmail "[a]" for a]
  by (simp add: send_body_cases sample_state_simps Let_def)

lemma send_body_list_refused:
  "fst (send_body (failing_on (\<lambda>ev. ev = ImapList)) ''Hello'' email sample_state) = Inl refused"
  using failing_on_simps(2)[of "\<lambda>ev. ev = ImapList" "[a]" for a]
    failing_on_simps(2)[of "\<lambda>ev. ev = ImapList" "[a, b, c]" for a b c]
  by (simp add: send_body_cases sample_state_simps Let_def)

lemma send_body_append_refused:
  "fst (send_body (failing_on is_append) ''Hello'' email sample_state) = Inl refused"
  using failing_on_simps(2)[of is_append "[a]" for a]
    failing_on_simps(2)[of is_append "[a, b, c]" for a b c]
    failing_on_simps(2)[of is_append "[a, b, c, d, e]" for a b c d e]
  by (simp add: send_body_cases sample_state_simps Let_def failing_on_simps(3)
      scan_mailboxes_resolve resolve_sample)

lemma send_body_shape:
  "\<exists>sent_folder date rest.
     [Log Info (sending subject),
      Sendmail (login (self s)) (email_recipients email) (email_msg email),
      Log Info ''E-mail enviado com sucesso'', ImapList, Log Info (saving sent_folder),
      ImapAppend sent_folder [] date (encode_utf8 (email_msg email)),
      Log Info ''E-mail salvo com sucesso''] =
       new_events (trace s) (trace (snd (send_body w subject email s))) @ rest \<and>
     (rest = [] \<longleftrightarrow> \<not> isl (fst (send_body w subject email s)))"
proof -
  let ?t2 = "trace s @ [Log Info (sending subject),
      Sendmail (login (self s)) (email_recipients email) (email_msg email)]"
  let ?t4 = "?t2 @ [Log Info ''E-mail enviado com sucesso'', ImapList]"
  show ?thesis
  proof (cases "scan_mailboxes (snd (list_reply w ?t4)) None")
    case (Inl e)
    then show ?thesis
      by (cases "server (self s)"; cases "fails w ?t2"; cases "imap (self s)"; cases "fails w ?t4";
          simp add: send_body_cases Let_def new_events_def)
  next
    case (Inr sf)
    let ?t5 = "?t4 @ [Log Info (saving sf)]"
    let ?t6 = "?t5 @ [ImapAppend sf [] (internaldate w ?t5) (encode_utf8 (email_msg email))]"
    from Inr show ?thesis
      by (cases "server (self s)"; cases "fails w ?t2"; cases "imap (self s)"; cases "fails w ?t4";
          cases "fails w ?t6";
          simp add: send_body_cases Let_def new_events_def)
  qed
qed


lemma send_body_extends:
  "trace (snd (send_body w subject email s)) =
     trace s @ new_events (trace s) (trace (snd (send_body w subject email s)))"
proof -
  let ?t2 = "trace s @ [Log Info (sending subject),
      Sendmail (login (self s)) (email_recipients email) (email_msg email)]"
  let ?t4 = "?t2 @ [Log Info ''E-mail enviado com sucesso'', ImapList]"
  show ?thesis
  proof (cases "scan_mailboxes (snd (list_reply w ?t4)) None")
    case (Inl e)
    then show ?thesis
      by (cases "server (self s)"; cases "fails w ?t2"; cases "imap (self s)"; cases "fails w ?t4";
          simp add: send_body_cases Let_def new_events_def)
  next
    case (Inr sf)
    let ?t5 = "?t4 @ [Log Info (saving sf)]"
    let ?t6 = "?t5 @ [ImapAppend sf [] (internaldate w ?t5) (encode_utf8 (email_msg email))]"
    from Inr show ?thesis
      by (cases "server (self s)"; cases "fails w ?t2"; cases "imap (self s)"; cases "fails w ?t4";
          cases "fails w ?t6";
          simp add: send_body_cases Let_def new_events_def)
  qed
qed

lemma send_body_success:
  "fst (send_body w subject email s) = Inr r \<Longrightarrow> r = SMTPResponse True email None None"
  by (simp add: send_body_cases Let_def split: if_splits option.splits sum.splits)

lemma filter_prefix_le:
  "full = new @ rest \<Longrightarrow> length (filter P new) \<le> length (filter P full)"
  by simp

lemma send_calm:
  "fst (send calm_world ''Hello'' ''Body'' ''you@example.com'' None None sample_state) =
     Inr (SMTPResponse True
            (sample_email ''me@example.com'' ''Hello'' ''Body'' ''you@example.com'' None None None)
            None None)"
  by (simp add: send_cases send_body_cases calm_build calm_fails calm_list_reply
      sample_state_simps scan_mailboxes_resolve resolve_sample Let_def)

text \<open>
  C4. When the \<open>Email\<close> builder succeeds, \<open>send\<close> never raises: it returns a response
  whose descriptive fields are those of the built message. If anything raised inside the
  \<open>try\<close> block (transmit, sent-folder resolution, archive append), the response has
  \<open>success\<close> false, error code exactly 500 and the error message of the handler, which
  contains the recipient address given to \<open>send\<close>; otherwise it is the success response.
\<close>

theorem send_catches:
  assumes "build_email w (login (self s)) subject body to_email cc_emails file_path
             (signature_path (self s)) = Inr email"
  shows "\<exists>r. fst (send w subject body to_email cc_emails file_path s) = Inr r \<and>
           res_sender r = email_from_email email \<and>
           res_subject r = email_subject email \<and>
           res_body r = email_body email \<and>
           res_html_body r = email_html_body email \<and>
           res_recipient r = email_to_email email \<and>
           res_cc_list r = email_cc_emails email \<and>
           res_signature_path r = email_signature_path email \<and>
           res_attachment_path r = email_file_path email \<and>
           (case fst (send_body w subject email s) of
              Inl e \<Rightarrow> success r = False \<and> error_code r = Some 500 \<and>
                       error_message r = Some (send_error to_email e) \<and>
                       contains to_email (send_error to_email e)
            | Inr ok \<Rightarrow> success r = True \<and> error_code r = None \<and> error_message r = None)"
proof (cases "send_body w subject email s")
  case (Pair res s')
  show ?thesis
  proof (cases res)
    case (Inl e)
    have "contains to_email (send_error to_email e)"
      unfolding send_error_def by (rule contains_append)
    with Pair Inl assms show ?thesis
      by (simp add: send_cases SMTPResponse_def)
  next
    case (Inr ok)
    with Pair have "ok = SMTPResponse True email None None"
      by (simp add: send_body_cases Let_def split: if_splits option.splits sum.splits)
    with Pair Inr assms show ?thesis
      by (simp add: send_cases SMTPResponse_def)
  qed
qed

theorem send_catches_witness:
  "(case fst (send (failing_on is_sendmail) ''Hello'' ''Body'' ''you@example.com'' None None
                sample_state) of
      Inl e \<Rightarrow> False
    | Inr r \<Rightarrow> success r = False \<and> error_code r = Some 500 \<and>
               error_message r = Some (send_error ''you@example.com'' refused) \<and>
               res_recipient r = ''you@example.com'') \<and>
   (case fst (send (failing_on (\<lambda>ev. ev = ImapList)) ''Hello'' ''Body'' ''you@example.com''
                None None sample_state) of
      Inl e \<Rightarrow> False
    | Inr r \<Rightarrow> success r = False \<and> error_code r = Some 500 \<and>
               error_message r = Some (send_error ''you@example.com'' refused)) \<and>
   (case fst (send (failing_on is_append) ''Hello'' ''Body'' ''you@example.com'' None None
                sample_state) of
      Inl e \<Rightarrow> False
    | Inr r \<Rightarrow> success r = False \<and> error_code r = Some 500 \<and>
               error_message r = Some (send_error ''you@example.com'' refused))"
proof -
  let ?email = "sample_email ''me@example.com'' ''Hello'' ''Body'' ''you@example.com'' None None None"
  have h: "build_email (failing_on P) (login (self sample_state)) ''Hello'' ''Body''
     ''you@example.com'' None None (signature_path (self sample_state)) = Inr ?email" for P
    by (simp add: failing_on_build sample_state_simps)
  from send_catches[OF h[of is_sendmail]] send_body_transmit_refused[of ?email]
  have a: "case fst (send (failing_on is_sendmail) ''Hello'' ''Body'' ''you@example.com'' None None
                sample_state) of
      Inl e \<Rightarrow> False
    | Inr r \<Rightarrow> success r = False \<and> error_code r = Some 500 \<and>
               error_message r = Some (send_error ''you@example.com'' refused) \<and>
               res_recipient r = ''you@example.com''"
    by (auto simp: sample_email_def)
  from send_catches[OF h[of "\<lambda>ev. ev = ImapList"]] send_body_list_refused[of ?email]
  have b: "case fst (send (failing_on (\<lambda>ev. ev = ImapList)) ''Hello'' ''Body'' ''you@example.com''
                None None sample_state) of
      Inl e \<Rightarrow> False
    | Inr r \<Rightarrow> success r = False \<and> error_code r = Some 500 \<and>
               error_message r = Some (send_error ''you@example.com'' refused)"
    by auto
  from send_catches[OF h[of is_append]] send_body_append_refused[of ?email]
  have c: "case fst (send (failing_on is_append) ''Hello'' ''Body'' ''you@example.com'' None None
                sample_state) of
      Inl e \<Rightarrow> False
    | Inr r \<Rightarrow> success r = False \<and> error_code r = Some 500 \<and>
               error_message r = Some (send_error ''you@example.com'' refused)"
    by auto
  from a b c show ?thesis by blast
qed

text \<open>
  C5. Among the events one \<open>send\<close> adds there is at most one \<open>sendmail\<close> and at most
  one \<open>append\<close>. A successful \<open>send\<close> adds exactly the sequence log, \<open>sendmail\<close>, log,
  \<open>list\<close>, log, \<open>append\<close>, log, so each happens once and the append after the transmit.
  If the transmit raises, the events are the log, the \<open>sendmail\<close> and the error log:
  \<open>append\<close> is never called, and the failure response is returned.
\<close>

theorem send_once:
  fixes w subject body to_email cc_emails file_path s
  defines "R \<equiv> send w subject body to_email cc_emails file_path s"
  defines "new \<equiv> new_events (trace s) (trace (snd R))"
  shows
    "length (filter is_sendmail new) \<le> 1 \<and>
     length (filter is_append new) \<le> 1 \<and>
     (\<forall>r. fst R = Inr r \<longrightarrow> success r \<longrightarrow>
        (\<exists>(email::email) sent_folder date.
           new = [Log Info (sending subject),
                  Sendmail (login (self s)) (email_recipients email) (email_msg email),
                  Log Info ''E-mail enviado com sucesso'', ImapList,
                  Log Info (saving sent_folder),
                  ImapAppend sent_folder [] date (encode_utf8 (email_msg email)),
                  Log Info ''E-mail salvo com sucesso''])) \<and>
     (\<forall>email e.
        build_email w (login (self s)) subject body to_email cc_emails file_path
          (signature_path (self s)) = Inr email \<longrightarrow>
        server (self s) \<noteq> None \<longrightarrow>
        fails w (trace s @ [Log Info (sending subject),
                            Sendmail (login (self s)) (email_recipients email) (email_msg email)])
          = Some e \<longrightarrow>
        fst R = Inr (SMTPResponse False email (Some (send_error to_email e)) (Some 500)) \<and>
        new = [Log Info (sending subject),
               Sendmail (login (self s)) (email_recipients email) (email_msg email),
               Log Error (send_error to_email e)] \<and>
        \<not> list_ex is_append new)"
proof (cases "build_email w (login (self s)) subject body to_email cc_emails file_path
          (signature_path (self s))")
  case (Inl e)
  then have "R = (Inl e, s)" by (simp add: R_def send_cases)
  then show ?thesis using Inl by (simp add: new_def new_events_def)
next
  case (Inr email)
  let ?B = "send_body w subject email s"
  let ?nb = "new_events (trace s) (trace (snd ?B))"
  obtain sf date rest where
    full: "[Log Info (sending subject),
      Sendmail (login (self s)) (email_recipients email) (email_msg email),
      Log Info ''E-mail enviado com sucesso'', ImapList, Log Info (saving sf),
      ImapAppend sf [] date (encode_utf8 (email_msg email)),
      Log Info ''E-mail salvo com sucesso''] = ?nb @ rest"
    and fin: "rest = [] \<longleftrightarrow> \<not> isl (fst ?B)"
    using send_body_shape[of subject s email w] by blast
  have ext: "trace (snd ?B) = trace s @ ?nb" by (rule send_body_extends)
  have sm: "length (filter is_sendmail ?nb) \<le> 1"
    using filter_prefix_le[OF full, of is_sendmail] by simp
  have ap: "length (filter is_append ?nb) \<le> 1"
    using filter_prefix_le[OF full, of is_append] by simp
  have transmit: "fst R = Inr (SMTPResponse False email (Some (send_error to_email e)) (Some 500)) \<and>
        new = [Log Info (sending subject),
               Sendmail (login (self s)) (email_recipients email) (email_msg email),
               Log Error (send_error to_email e)] \<and>
        \<not> list_ex is_append new"
    if "server (self s) \<noteq> None"
      and "fails w (trace s @ [Log Info (sending subject),
                            Sendmail (login (self s)) (email_recipients email) (email_msg email)])
          = Some e" for e
    using that Inr
    by (auto simp: R_def new_def send_cases send_body_cases Let_def new_events_def)
  show ?thesis
  proof (cases "fst ?B")
    case (Inl e)
    obtain s' where B: "?B = (Inl e, s')" using Inl by (cases ?B) auto
    have R: "R = (Inr (SMTPResponse False email (Some (send_error to_email e)) (Some 500)),
                  s'\<lparr>trace := trace s' @ [Log Error (send_error to_email e)]\<rparr>)"
      using Inr B by (simp add: R_def send_cases)
    have tr: "trace s' = trace s @ ?nb" using ext B by simp
    have new: "new = ?nb @ [Log Error (send_error to_email e)]"
      using R tr by (simp add: new_def new_events_def)
    have nosucc: "\<not> success (SMTPResponse False email (Some (send_error to_email e)) (Some 500))"
      by (simp add: SMTPResponse_def)
    show ?thesis
      using sm ap new R nosucc transmit Inr by auto
  next
    case (Inr r)
    note rr = this
    obtain s' where B: "?B = (Inr r, s')" using Inr by (cases ?B) auto
    have R: "R = (Inr r, s')"
      using \<open>build_email w (login (self s)) subject body to_email cc_emails file_path
          (signature_path (self s)) = Inr email\<close> B by (simp add: R_def send_cases)
    have "rest = []" using fin rr by simp
    with full have nb: "?nb = [Log Info (sending subject),
      Sendmail (login (self s)) (email_recipients email) (email_msg email),
      Log Info ''E-mail enviado com sucesso'', ImapList, Log Info (saving sf),
      ImapAppend sf [] date (encode_utf8 (email_msg email)),
      Log Info ''E-mail salvo com sucesso'']" by simp
    have new: "new = ?nb" using R B by (simp add: new_def)
    have ex: "\<exists>(email::email) sent_folder date.
           new = [Log Info (sending subject),
                  Sendmail (login (self s)) (email_recipients email) (email_msg email),
                  Log Info ''E-mail enviado com sucesso'', ImapList,
                  Log Info (saving sent_folder),
                  ImapAppend sent_folder [] date (encode_utf8 (email_msg email)),
                  Log Info ''E-mail salvo com sucesso'']"
      by (rule exI[of _ email], rule exI[of _ sf], rule exI[of _ date]) (simp only: new nb)
    show ?thesis
      using sm ap new ex transmit
        \<open>build_email w (login (self s)) subject body to_email cc_emails file_path
          (signature_path (self s)) = Inr email\<close>
      by auto
  qed
qed

theorem send_once_witness:
  "length (filter is_sendmail
      (new_events (trace sample_state)
         (trace (snd (send calm_world ''Hello'' ''Body'' ''you@example.com'' None None
                        sample_state))))) = 1 \<and>
   length (filter is_append
      (new_events (trace sample_state)
         (trace (snd (send calm_world ''Hello'' ''Body'' ''you@example.com'' None None
                        sample_state))))) = 1 \<and>
   new_events (trace sample_state)
     (trace (snd (send (failing_on is_sendmail) ''Hello'' ''Body'' ''you@example.com'' None None
                    sample_state))) =
     [Log Info (sending ''Hello''),
      Sendmail ''me@example.com'' [''you@example.com'']
        (email_msg (sample_email ''me@example.com'' ''Hello'' ''Body'' ''you@example.com''
                      None None None)),
      Log Error (send_error ''you@example.com'' refused)]"
proof -
  let ?email = "sample_email ''me@example.com'' ''Hello'' ''Body'' ''you@example.com'' None None None"
  have ok: "success (SMTPResponse True ?email None None)"
    by (simp add: SMTPResponse_def)
  from send_once[where w = calm_world and subject = "''Hello''" and body = "''Body''"
      and to_email = "''you@example.com''" and cc_emails = None and file_path = None
      and s = sample_state]
    send_calm ok
  obtain email :: email and sent_folder date where
    "new_events (trace sample_state)
         (trace (snd (send calm_world ''Hello'' ''Body'' ''you@example.com'' None None
                        sample_state))) =
       [Log Info (sending ''Hello''),
        Sendmail (login (self sample_state)) (email_recipients email) (email_msg email),
        Log Info ''E-mail enviado com sucesso'', ImapList, Log Info (saving sent_folder),
        ImapAppend sent_folder [] date (encode_utf8 (email_msg email)),
        Log Info ''E-mail salvo com sucesso'']"
    by blast
  then have a: "length (filter is_sendmail
      (new_events (trace sample_state)
         (trace (snd (send calm_world ''Hello'' ''Body'' ''you@example.com'' None None
                        sample_state))))) = 1"
    and b: "length (filter is_append
      (new_events (trace sample_state)
         (trace (snd (send calm_world ''Hello'' ''Body'' ''you@example.com'' None None
                        sample_state))))) = 1"
    by simp_all
  have h1: "build_email (failing_on is_sendmail) (login (self sample_state)) ''Hello'' ''Body''
     ''you@example.com'' None None (signature_path (self sample_state)) = Inr ?email"
    by (simp add: failing_on_build sample_state_simps)
  have h2: "server (self sample_state) \<noteq> None" by (simp add: sample_state_simps)
  have h3: "fails (failing_on is_sendmail)
              (trace sample_state @ [Log Info (sending ''Hello''),
                 Sendmail (login (self sample_state)) (email_recipients ?email) (email_msg ?email)])
              = Some refused"
    using failing_on_simps(2)[of is_sendmail "[x]" for x]
    by (simp add: sample_state_simps)
  from send_once[where w = "failing_on is_sendmail" and subject = "''Hello''"
      and body = "''Body''" and to_email = "''you@example.com''" and cc_emails = None
      and file_path = None and s = sample_state] h1 h2 h3
  have "new_events (trace sample_state)
     (trace (snd (send (failing_on is_sendmail) ''Hello'' ''Body'' ''you@example.com'' None None
                    sample_state))) =
     [Log Info (sending ''Hello''),
      Sendmail (login (self sample_state)) (email_recipients ?email) (email_msg ?email),
      Log Error (send_error ''you@example.com'' refused)]"
    by blast
  then have c: "new_events (trace sample_state)
     (trace (snd (send (failing_on is_sendmail) ''Hello'' ''Body'' ''you@example.com'' None None
                    sample_state))) =
     [Log Info (sending ''Hello''),
      Sendmail ''me@example.com'' [''you@example.com''] (email_msg ?email),
      Log Error (send_error ''you@example.com'' refused)]"
    by (simp add: sample_state_simps sample_email_def)
  from a b c show ?thesis by blast
qed

text \<open>
  C6. An exception of the \<open>Email\<close> builder leaves \<open>send\<close> as it is: \<open>send\<close> raises
  that same exception, returns no response and adds no event.
\<close>

theorem builder_failure_propagates:
  assumes "build_email w (login (self s)) subject body to_email cc_emails file_path
             (signature_path (self s)) = Inl e"
  shows "send w subject body to_email cc_emails file_path s = (Inl e, s)"
  using assms by (simp add: send_cases)

theorem builder_failure_propagates_witness:
  "build_email unreadable_world (login (self sample_state)) ''Hello'' ''Body''
     ''you@example.com'' None (Some ''missing.pdf'') (signature_path (self sample_state)) =
     Inl no_file \<and>
   send unreadable_world ''Hello'' ''Body'' ''you@example.com'' None (Some ''missing.pdf'')
     sample_state = (Inl no_file, sample_state)"
proof -
  have h: "build_email unreadable_world (login (self sample_state)) ''Hello'' ''Body''
     ''you@example.com'' None (Some ''missing.pdf'') (signature_path (self sample_state)) =
     Inl no_file"
    by (simp add: unreadable_world_def calm_world_def)
  from h builder_failure_propagates[OF h] show ?thesis by blast
qed

text \<open>
  C10. After \<open>close_connection\<close> both handles are \<open>None\<close>; a \<open>send\<close> whose message
  construction succeeds then meets the AttributeError of \<open>None.sendmail\<close> inside the
  \<open>try\<close> block, and returns the failure response with error code 500 instead of
  raising; no call reaches a server.
\<close>

theorem send_after_close:
  assumes "build_email w' (login (self s)) subject body to_email cc_emails file_path
             (signature_path (self s)) = Inr email"
  shows "send w' subject body to_email cc_emails file_path (snd (close_connection w s)) =
           (Inr (SMTPResponse False email
                   (Some (send_error to_email (none_has_no_attribute ''sendmail'')))
                   (Some 500)),
            (snd (close_connection w s))
              \<lparr>trace := trace (snd (close_connection w s)) @
                  [Log Info (sending subject),
                   Log Error (send_error to_email (none_has_no_attribute ''sendmail''))]\<rparr>)"
  using assms
  by (simp add: send_cases send_body_cases close_connection_self)

theorem send_after_close_witness:
  "build_email calm_world (login (self sample_state)) ''Hello'' ''Body'' ''you@example.com''
     None None (signature_path (self sample_state)) =
     Inr (sample_email ''me@example.com'' ''Hello'' ''Body'' ''you@example.com'' None None None) \<and>
   (case fst (send calm_world ''Hello'' ''Body'' ''you@example.com'' None None
                (snd (close_connection calm_world sample_state))) of
      Inl e \<Rightarrow> False
    | Inr r \<Rightarrow> success r = False \<and> error_code r = Some 500 \<and>
               error_message r =
                 Some (send_error ''you@example.com'' (none_has_no_attribute ''sendmail'')))"
proof -
  have h: "build_email calm_world (login (self sample_state)) ''Hello'' ''Body''
     ''you@example.com'' None None (signature_path (self sample_state)) =
     Inr (sample_email ''me@example.com'' ''Hello'' ''Body'' ''you@example.com'' None None None)"
    by (simp add: calm_build sample_state_def sample_sender_def fields_def)
  from h send_after_close[OF h, of calm_world] show ?thesis
    by (simp add: SMTPResponse_def)
qed

end
